theory Spec2Isabelle
  imports Main
begin

section \<open>Python values and exceptions\<close>

text \<open>
  The integration code (\<^verbatim>\<open>movies/omdb_integration.py\<close>) is dynamically typed: payloads
  are dicts, strings, lists or attribute-bearing objects.  Values are embedded as one
  datatype.  Scope of the embedding:
  \<^item> a Python \<^verbatim>\<open>str\<close> is a list of code points below 256, one \<open>char\<close> per code point;
  \<^item> floats and bytes are not part of the universe;
  \<^item> an object is the association list of its attributes; reading an attribute either
    yields a value or raises (a property, as in \<^verbatim>\<open>OmdbMovie\<close>); a zero-argument
    callable is \<open>PCallable r\<close> where \<open>r\<close> is the outcome of calling it;
  \<^item> objects and callables are truthy (no \<^verbatim>\<open>__bool__\<close>, no \<^verbatim>\<open>__len__\<close>);
  \<^item> every exception is a subclass of \<^verbatim>\<open>Exception\<close>.
\<close>

datatype exn =
    TypeError
  | ValueError
  | AttributeError
  | KeyError
  | HTTPError
  | ConnectionError
  | OtherException string

datatype pyval =
    PNone
  | PBool bool
  | PInt int
  | PStr string
  | PList "pyval list"
  | PTuple "pyval list"
  | PDict "(string \<times> pyval) list"
  | PObj "(string \<times> (exn + pyval)) list"
  | PCallable "exn + pyval"

text \<open>\<^verbatim>\<open>isinstance(v, int)\<close>: \<^verbatim>\<open>bool\<close> is a subclass of \<^verbatim>\<open>int\<close>.\<close>

fun isinstance_int :: "pyval \<Rightarrow> bool" where
  "isinstance_int (PInt i) = True"
| "isinstance_int (PBool b) = True"
| "isinstance_int v = False"

fun isinstance_str :: "pyval \<Rightarrow> bool" where
  "isinstance_str (PStr s) = True"
| "isinstance_str v = False"

fun isinstance_dict :: "pyval \<Rightarrow> bool" where
  "isinstance_dict (PDict kvs) = True"
| "isinstance_dict v = False"

text \<open>Truth value of a Python value, as used by \<^verbatim>\<open>or\<close>, \<^verbatim>\<open>and\<close>, \<^verbatim>\<open>not\<close> and \<^verbatim>\<open>if\<close>.\<close>

fun truthy :: "pyval \<Rightarrow> bool" where
  "truthy PNone = False"
| "truthy (PBool b) = b"
| "truthy (PInt i) = (i \<noteq> 0)"
| "truthy (PStr s) = (s \<noteq> [])"
| "truthy (PList xs) = (xs \<noteq> [])"
| "truthy (PTuple xs) = (xs \<noteq> [])"
| "truthy (PDict kvs) = (kvs \<noteq> [])"
| "truthy (PObj attrs) = True"
| "truthy (PCallable r) = True"

text \<open>\<^verbatim>\<open>d.get(k)\<close> on a dict: the value, or \<^verbatim>\<open>None\<close> when the key is absent.\<close>

definition dict_get :: "(string \<times> pyval) list \<Rightarrow> string \<Rightarrow> pyval" where
  "dict_get kvs k = (case map_of kvs k of None \<Rightarrow> PNone | Some v \<Rightarrow> v)"

text \<open>
  \<^verbatim>\<open>getattr(obj, name, None)\<close>: the default replaces an \<^verbatim>\<open>AttributeError\<close> only; any
  other exception raised by the attribute read propagates.  The built-in types of the
  universe other than \<^verbatim>\<open>str\<close> have none of the attribute names this program probes;
  the program never probes a \<^verbatim>\<open>str\<close> for a name that \<^verbatim>\<open>str\<close> defines.
\<close>

fun getattr_default :: "pyval \<Rightarrow> string \<Rightarrow> exn + pyval" where
  "getattr_default (PObj attrs) name =
     (case map_of attrs name of
        None \<Rightarrow> Inr PNone
      | Some (Inr v) \<Rightarrow> Inr v
      | Some (Inl e) \<Rightarrow> (if e = AttributeError then Inr PNone else Inl e))"
| "getattr_default v name = Inr PNone"

fun callable :: "pyval \<Rightarrow> bool" where
  "callable (PCallable r) = True"
| "callable v = False"

section \<open>Strings\<close>

definition is_decimal :: "char \<Rightarrow> bool" where
  "is_decimal c = (48 \<le> (of_char c :: nat) \<and> (of_char c :: nat) \<le> 57)"

text \<open>
  \<^verbatim>\<open>str.isdigit\<close> on one character: the decimal digits and, below 256, the
  superscripts U+00B2, U+00B3 and U+00B9, which \<^verbatim>\<open>int()\<close> and \<^verbatim>\<open>\d\<close> do not accept.
\<close>

definition char_isdigit :: "char \<Rightarrow> bool" where
  "char_isdigit c = (is_decimal c \<or> (of_char c :: nat) \<in> {178, 179, 185})"

definition str_isdigit :: "string \<Rightarrow> bool" where
  "str_isdigit s = (s \<noteq> [] \<and> list_all char_isdigit s)"

definition digits_value :: "string \<Rightarrow> int" where
  "digits_value s = foldl (\<lambda>a c. 10 * a + int (of_char c - 48)) 0 s"

text \<open>
  The interpreter's limit on the conversion between integers and decimal strings
  (\<^verbatim>\<open>sys.int_info.default_max_str_digits\<close>): \<^verbatim>\<open>int(s)\<close> raises \<^verbatim>\<open>ValueError\<close> for more
  digit characters than this (leading zeros count), and so do \<^verbatim>\<open>str\<close> and \<^verbatim>\<open>repr\<close> of
  an integer with more decimal digits than this.
\<close>

definition max_str_digits :: nat where
  "max_str_digits = 4300"

text \<open>
  \<^verbatim>\<open>int(s)\<close> for the strings this program converts: strings for which
  \<^verbatim>\<open>isdigit()\<close> holds and matches of a digit pattern.  On those it returns the
  value of a run of decimal digits no longer than the limit and raises \<^verbatim>\<open>ValueError\<close>
  otherwise.
\<close>

definition py_int :: "string \<Rightarrow> exn + pyval" where
  "py_int s = (if s \<noteq> [] \<and> list_all is_decimal s \<and> length s \<le> max_str_digits
               then Inr (PInt (digits_value s))
               else Inl ValueError)"

text \<open>\<^verbatim>\<open>re.match(r"^\d{4}", s)\<close>: the matched text, when there is a match.\<close>

definition re_match_d4 :: "string \<Rightarrow> string option" where
  "re_match_d4 s = (if 4 \<le> length s \<and> list_all is_decimal (take 4 s)
                    then Some (take 4 s) else None)"

text \<open>\<^verbatim>\<open>re.search(r"(\d+)", s)\<close>: group 1, the leftmost maximal run of digits.\<close>

definition re_search_digits :: "string \<Rightarrow> string option" where
  "re_search_digits s =
     (let r = takeWhile is_decimal (dropWhile (\<lambda>c. \<not> is_decimal c) s)
      in if r = [] then None else Some r)"

text \<open>
  White space as \<^verbatim>\<open>str.strip()\<close>, \<^verbatim>\<open>str.isspace()\<close> and the pattern \<^verbatim>\<open>\s\<close> see it
  below 256: U+0009 to U+000D, U+001C to U+0020, U+0085 and U+00A0.
\<close>

definition is_space :: "char \<Rightarrow> bool" where
  "is_space c = (let n = (of_char c :: nat)
                 in (9 \<le> n \<and> n \<le> 13) \<or> (28 \<le> n \<and> n \<le> 32) \<or> n = 133 \<or> n = 160)"

definition strip :: "string \<Rightarrow> string" where
  "strip s = rev (dropWhile is_space (rev (dropWhile is_space s)))"

text \<open>\<^verbatim>\<open>s.split(sep)\<close> for a one-character separator: always at least one piece.\<close>

fun split_on :: "char \<Rightarrow> string \<Rightarrow> string list" where
  "split_on sep [] = [[]]"
| "split_on sep (c # cs) =
     (if c = sep then [] # split_on sep cs
      else (case split_on sep cs of
              [] \<Rightarrow> [[c]]
            | p # ps \<Rightarrow> (c # p) # ps))"

section \<open>str() and repr()\<close>

fun nat_digits :: "nat \<Rightarrow> string" where
  "nat_digits n = (if n < 10 then [char_of (48 + n)]
                   else nat_digits (n div 10) @ [char_of (48 + n mod 10)])"

declare nat_digits.simps [simp del]

definition int_str :: "int \<Rightarrow> string" where
  "int_str i = (if i < 0 then CHR ''-'' # nat_digits (nat (- i)) else nat_digits (nat i))"

text \<open>\<^verbatim>\<open>str(i)\<close> and \<^verbatim>\<open>repr(i)\<close> of an integer: the sign does not count as a digit.\<close>

definition int_repr :: "int \<Rightarrow> exn + string" where
  "int_repr i = (if length (nat_digits (nat \<bar>i\<bar>)) \<le> max_str_digits then Inr (int_str i)
                 else Inl ValueError)"

definition hex_digit :: "nat \<Rightarrow> char" where
  "hex_digit n = (if n < 10 then char_of (48 + n) else char_of (87 + n))"

text \<open>
  \<^verbatim>\<open>repr\<close> of a string: double quotes when the text has a single quote and no double
  quote, single quotes otherwise; backslash, the quote, tab, newline and carriage
  return are escaped, the other non-printable code points are written \<^verbatim>\<open>\xNN\<close>.
\<close>

definition printable :: "char \<Rightarrow> bool" where
  "printable c = (let n = (of_char c :: nat)
                  in (32 \<le> n \<and> n < 127) \<or> (160 < n \<and> n \<noteq> 173))"

definition repr_char :: "char \<Rightarrow> char \<Rightarrow> string" where
  "repr_char q c =
     (if c = q \<or> c = CHR 0x5C then [CHR 0x5C, c]
      else if c = CHR 0x09 then [CHR 0x5C, CHR ''t'']
      else if c = CHR 0x0A then [CHR 0x5C, CHR ''n'']
      else if c = CHR 0x0D then [CHR 0x5C, CHR ''r'']
      else if printable c then [c]
      else [CHR 0x5C, CHR ''x'', hex_digit ((of_char c :: nat) div 16),
            hex_digit ((of_char c :: nat) mod 16)])"

definition repr_str :: "string \<Rightarrow> string" where
  "repr_str s =
     (let q = (if CHR 0x27 \<in> set s \<and> CHR 0x22 \<notin> set s then CHR 0x22 else CHR 0x27)
      in [q] @ concat (map (repr_char q) s) @ [q])"

fun join :: "string \<Rightarrow> string list \<Rightarrow> string" where
  "join sep [] = []"
| "join sep [x] = x"
| "join sep (x # y # ys) = x @ sep @ join sep (y # ys)"

text \<open>The first exception of a sequence of outcomes, or all the results.\<close>

fun sequence :: "(exn + 'a) list \<Rightarrow> exn + 'a list" where
  "sequence [] = Inr []"
| "sequence (Inl e # rs) = Inl e"
| "sequence (Inr x # rs) = (case sequence rs of Inl e \<Rightarrow> Inl e | Inr xs \<Rightarrow> Inr (x # xs))"

text \<open>
  The text an object gives through a special method (\<^verbatim>\<open>__str__\<close>, \<^verbatim>\<open>__repr__\<close>):
  the method's result, which must be a string; without the method, the interpreter's
  default \<^verbatim>\<open><... object at 0x...>\<close>, of which only the leading \<^verbatim>\<open><\<close> is meaningful here.
\<close>

definition special_text :: "(string \<times> (exn + pyval)) list \<Rightarrow> string \<Rightarrow> exn + string" where
  "special_text attrs name =
     (case map_of attrs name of
        Some (Inr (PCallable (Inr (PStr s)))) \<Rightarrow> Inr s
      | Some (Inr (PCallable (Inr v))) \<Rightarrow> Inl TypeError
      | Some (Inr (PCallable (Inl e))) \<Rightarrow> Inl e
      | Some (Inr v) \<Rightarrow> Inl TypeError
      | Some (Inl e) \<Rightarrow> Inl e
      | None \<Rightarrow> Inr ''<object>'')"

fun py_repr :: "pyval \<Rightarrow> exn + string" where
  "py_repr PNone = Inr ''None''"
| "py_repr (PBool b) = Inr (if b then ''True'' else ''False'')"
| "py_repr (PInt i) = int_repr i"
| "py_repr (PStr s) = Inr (repr_str s)"
| "py_repr (PList xs) =
     (case sequence (map py_repr xs) of
        Inl e \<Rightarrow> Inl e
      | Inr rs \<Rightarrow> Inr (''['' @ join '', '' rs @ '']''))"
| "py_repr (PTuple xs) =
     (case sequence (map py_repr xs) of
        Inl e \<Rightarrow> Inl e
      | Inr rs \<Rightarrow> Inr (''('' @ join '', '' rs @ (if length rs = 1 then '','' else []) @ '')''))"
| "py_repr (PDict kvs) =
     (case sequence (map (\<lambda>kv. case py_repr (snd kv) of
                                  Inl e \<Rightarrow> Inl e
                                | Inr r \<Rightarrow> Inr (repr_str (fst kv) @ '': '' @ r)) kvs) of
        Inl e \<Rightarrow> Inl e
      | Inr rs \<Rightarrow> Inr (''{'' @ join '', '' rs @ ''}''))"
| "py_repr (PObj attrs) = special_text attrs ''__repr__''"
| "py_repr (PCallable r) = Inr ''<callable>''"

text \<open>
  \<^verbatim>\<open>str(v)\<close>: the string itself; \<^verbatim>\<open>__str__\<close> of an object that has one; \<^verbatim>\<open>repr\<close>
  otherwise, also for an object without \<^verbatim>\<open>__str__\<close>.
\<close>

fun py_str :: "pyval \<Rightarrow> exn + string" where
  "py_str (PStr s) = Inr s"
| "py_str (PObj attrs) =
     (case map_of attrs ''__str__'' of
        None \<Rightarrow> py_repr (PObj attrs)
      | Some a \<Rightarrow> special_text attrs ''__str__'')"
| "py_str v = py_repr v"

section \<open>Sequencing of outcomes\<close>

text \<open>
  An outcome is \<open>Inl e\<close> (the exception \<open>e\<close> was raised) or \<open>Inr v\<close> (the value \<open>v\<close>
  was returned).  \<open>bind_res\<close> runs the continuation on a returned value and passes an
  exception on.
\<close>

definition bind_res :: "exn + 'a \<Rightarrow> ('a \<Rightarrow> exn + 'b) \<Rightarrow> exn + 'b" where
  "bind_res m f = (case m of Inl e \<Rightarrow> Inl e | Inr v \<Rightarrow> f v)"

section \<open>The Detail Normalizer\<close>

text \<open>\<^verbatim>\<open>_callable_attr(obj, name)\<close>: the attribute, called when it is callable.\<close>

definition callable_attr :: "pyval \<Rightarrow> string \<Rightarrow> exn + pyval" where
  "callable_attr obj name =
     bind_res (getattr_default obj name)
       (\<lambda>v. case v of PCallable r \<Rightarrow> r | _ \<Rightarrow> Inr v)"

text \<open>The text of a \<^verbatim>\<open>str\<close> value (used under an \<^verbatim>\<open>isinstance(v, str)\<close> test).\<close>

fun str_text :: "pyval \<Rightarrow> string" where
  "str_text (PStr s) = s"
| "str_text v = []"

text \<open>\<^verbatim>\<open>a or b\<close> on two values already computed.\<close>

definition py_or :: "pyval \<Rightarrow> pyval \<Rightarrow> pyval" where
  "py_or a b = (if truthy a then a else b)"

text \<open>\<^verbatim>\<open>a or b\<close> where \<open>b\<close> is computed only when \<open>a\<close> is falsy, and either may raise.\<close>

definition or_else :: "exn + pyval \<Rightarrow> exn + pyval \<Rightarrow> exn + pyval" where
  "or_else a b = bind_res a (\<lambda>x. if truthy x then Inr x else b)"

text \<open>The six raw fields read off a payload (lines 82 to 106).\<close>

record raw_fields =
  f_title :: pyval
  f_year :: pyval
  f_imdb_id :: pyval
  f_plot :: pyval
  f_runtime_str :: pyval
  f_genres :: pyval

definition read_fields :: "pyval \<Rightarrow> exn + raw_fields" where
  "read_fields detail =
     (case detail of
        PDict d \<Rightarrow>
          Inr \<lparr> f_title = dict_get d ''Title'',
                f_year = dict_get d ''Year'',
                f_imdb_id = py_or (py_or (dict_get d ''imdbID'') (dict_get d ''imdbId''))
                                  (dict_get d ''imdb_id''),
                f_plot = dict_get d ''Plot'',
                f_runtime_str = py_or (dict_get d ''Runtime'') (dict_get d ''runtime''),
                f_genres = py_or (dict_get d ''Genre'') (dict_get d ''genres'') \<rparr>
      | PStr s \<Rightarrow>
          Inr \<lparr> f_title = detail, f_year = PNone, f_imdb_id = PNone, f_plot = PNone,
                f_runtime_str = PNone, f_genres = PNone \<rparr>
      | _ \<Rightarrow>
          bind_res (callable_attr detail ''title'') (\<lambda>title.
          bind_res (callable_attr detail ''year'') (\<lambda>year.
          bind_res (or_else (callable_attr detail ''imdb_id'')
                            (callable_attr detail ''imdbID'')) (\<lambda>imdb_id.
          bind_res (callable_attr detail ''plot'') (\<lambda>plot.
          bind_res (or_else (callable_attr detail ''runtime'')
                            (callable_attr detail ''runtime_minutes'')) (\<lambda>runtime_str.
          bind_res (callable_attr detail ''genres'') (\<lambda>genres.
          Inr \<lparr> f_title = title, f_year = year, f_imdb_id = imdb_id, f_plot = plot,
                f_runtime_str = runtime_str, f_genres = genres \<rparr>)))))))"

text \<open>
  Year normalization inside \<^verbatim>\<open>_normalize_detail_obj\<close> (lines 108 to 118): first the
  body of the \<^verbatim>\<open>try\<close>, then the \<^verbatim>\<open>except Exception\<close> that turns a raise into null.
\<close>

definition year_try_detail :: "pyval \<Rightarrow> exn + pyval" where
  "year_try_detail year =
     (if isinstance_int year then Inr year
      else if isinstance_str year \<and> str_isdigit (str_text year) then py_int (str_text year)
      else bind_res (if year \<noteq> PNone
                     then bind_res (py_str year) (\<lambda>s. Inr (re_match_d4 s))
                     else Inr None)
             (\<lambda>m. case m of Some g \<Rightarrow> py_int g | None \<Rightarrow> Inr PNone))"

definition normalize_year_detail :: "pyval \<Rightarrow> pyval" where
  "normalize_year_detail year =
     (case year_try_detail year of Inl e \<Rightarrow> PNone | Inr year_val \<Rightarrow> year_val)"

text \<open>
  Runtime normalization (lines 120 to 129): \<^verbatim>\<open>runtime_minutes\<close> starts as null and an
  exception leaves it so.
\<close>

definition runtime_try :: "pyval \<Rightarrow> exn + pyval" where
  "runtime_try runtime_str =
     (if isinstance_int runtime_str then Inr runtime_str
      else if isinstance_str runtime_str then
        (case re_search_digits (str_text runtime_str) of
           Some g \<Rightarrow> py_int g
         | None \<Rightarrow> Inr PNone)
      else Inr PNone)"

definition normalize_runtime :: "pyval \<Rightarrow> pyval" where
  "normalize_runtime runtime_str =
     (case runtime_try runtime_str of Inl e \<Rightarrow> PNone | Inr m \<Rightarrow> m)"

text \<open>
  Genre normalization (lines 131 to 137).  In the sequence branch \<^verbatim>\<open>str(g)\<close> is
  outside any \<^verbatim>\<open>try\<close>: the first element whose \<^verbatim>\<open>str\<close> raises ends the function.
\<close>

definition normalize_genres :: "pyval \<Rightarrow> exn + pyval" where
  "normalize_genres genres =
     (case genres of
        PStr s \<Rightarrow>
          Inr (PList (map PStr [strip g. g \<leftarrow> split_on (CHR '','') s, strip g \<noteq> []]))
      | PList gs \<Rightarrow>
          bind_res (sequence (map py_str gs))
            (\<lambda>ts. Inr (PList (map PStr [strip t. t \<leftarrow> ts, strip t \<noteq> []])))
      | PTuple gs \<Rightarrow>
          bind_res (sequence (map py_str gs))
            (\<lambda>ts. Inr (PList (map PStr [strip t. t \<leftarrow> ts, strip t \<noteq> []])))
      | _ \<Rightarrow> Inr (PList []))"

text \<open>\<^verbatim>\<open>_normalize_detail_obj(detail)\<close>: an empty dict for null, else the six-key dict.\<close>

definition normalize_detail_obj :: "pyval \<Rightarrow> exn + pyval" where
  "normalize_detail_obj detail =
     (if detail = PNone then Inr (PDict [])
      else
        bind_res (read_fields detail) (\<lambda>f.
        bind_res (normalize_genres (f_genres f)) (\<lambda>genre_list.
        Inr (PDict [(''Title'', f_title f),
                    (''Year'', normalize_year_detail (f_year f)),
                    (''imdbID'', f_imdb_id f),
                    (''Plot'', f_plot f),
                    (''RuntimeMinutes'', normalize_runtime (f_runtime_str f)),
                    (''Genres'', genre_list)]))))"

text \<open>
  The inline year normalization of \<^verbatim>\<open>search_and_save\<close> (lines 305 to 316):
  \<^verbatim>\<open>year_val\<close> starts as null; the last \<^verbatim>\<open>elif\<close> leaves it so for a null year.
\<close>

definition year_try_search :: "pyval \<Rightarrow> exn + pyval" where
  "year_try_search year =
     (if isinstance_int year then Inr year
      else if isinstance_str year \<and> str_isdigit (str_text year) then py_int (str_text year)
      else if year \<noteq> PNone then
        bind_res (py_str year)
          (\<lambda>s. case re_match_d4 s of Some g \<Rightarrow> py_int g | None \<Rightarrow> Inr PNone)
      else Inr PNone)"

definition normalize_year_search :: "pyval \<Rightarrow> pyval" where
  "normalize_year_search year =
     (case year_try_search year of Inl e \<Rightarrow> PNone | Inr year_val \<Rightarrow> year_val)"

text \<open>\<^verbatim>\<open>isinstance(v, (list, tuple))\<close>.\<close>

fun isinstance_seq :: "pyval \<Rightarrow> bool" where
  "isinstance_seq (PList xs) = True"
| "isinstance_seq (PTuple xs) = True"
| "isinstance_seq v = False"

text \<open>\<^verbatim>\<open>details.get(key)\<close> on the outcome of a normalizer that returned a dict.\<close>

definition result_get :: "exn + pyval \<Rightarrow> string \<Rightarrow> pyval" where
  "result_get r k = (case r of Inr (PDict kvs) \<Rightarrow> dict_get kvs k | _ \<Rightarrow> PNone)"

section \<open>Clients, upstream requests, the store\<close>

text \<open>
  A call passes positional and keyword arguments.  A client is an object whose
  members are plain attributes or methods; a method maps a call to its outcome
  (\<^verbatim>\<open>TypeError\<close> when the arguments do not fit its signature).  The method's outcome
  is a function of the call alone.
\<close>

datatype call = Call (pos_args: "pyval list") (kw_args: "(string \<times> pyval) list")

datatype member = Attr pyval | Method "call \<Rightarrow> exn + pyval"

type_synonym client = "string \<Rightarrow> member option"

text \<open>
  What reaches outside the process: an invocation of a client method, or the direct
  \<^verbatim>\<open>requests.get\<close> of the HTTP fallback with its query parameters.
\<close>

datatype request = ClientCall string call | HttpGet "(string \<times> pyval) list"

datatype level = Debug | Info | Warning | Error

text \<open>An HTTP response: the status code and the outcome of \<^verbatim>\<open>response.json()\<close>.\<close>

record response =
  status_code :: nat
  json_body :: "exn + pyval"

type_synonym transport = "(string \<times> pyval) list \<Rightarrow> exn + response"

text \<open>
  Modelled from the spec: the persistence collaborator \<^verbatim>\<open>movies.models\<close> (Movie,
  SearchTerm, Genre), which is not among the sources.  Per sections 3 and 6 of the
  specification it is a key-unique store: Movie rows keyed by \<^verbatim>\<open>imdb_id\<close>, SearchTerm
  rows keyed by \<^verbatim>\<open>term\<close> with a nullable \<^verbatim>\<open>last_search\<close>, Genre rows keyed by \<^verbatim>\<open>name\<close>,
  and a many-to-many association between movies and genres.  Its operations do not
  raise.  Timestamps are integers (microseconds).
\<close>

record movie =
  m_imdb_id :: pyval
  m_title :: pyval
  m_year :: pyval
  m_plot :: pyval
  m_runtime_minutes :: pyval
  m_is_full_record :: bool

record world =
  search_terms :: "string \<rightharpoonup> int option"
  movies :: "pyval \<rightharpoonup> movie"
  genre_rows :: "pyval list"
  movie_genres :: "pyval \<Rightarrow> pyval list"
  upstream :: "request list"
  logged :: "(level \<times> string) list"

text \<open>
  What the functions read and do not change: the Django settings, the client that
  \<^verbatim>\<open>get_client_from_settings()\<close> returns (that function is not among the sources: its
  result is a parameter), the transport behind \<^verbatim>\<open>requests.get\<close> on the OMDb URL, and
  the two readings of the clock that \<^verbatim>\<open>search_and_save\<close> takes.
\<close>

record env =
  settings :: "string \<rightharpoonup> pyval"
  omdb_client :: client
  http_get :: transport
  now_guard :: int
  now_stamp :: int

text \<open>
  A log line is kept as its level and the fixed part of its message; the formatted
  arguments are left out.
\<close>

definition log_line :: "level \<Rightarrow> string \<Rightarrow> world \<Rightarrow> world" where
  "log_line lv msg w = w\<lparr>logged := logged w @ [(lv, msg)]\<rparr>"

definition send :: "request \<Rightarrow> world \<Rightarrow> world" where
  "send r w = w\<lparr>upstream := upstream w @ [r]\<rparr>"

text \<open>\<^verbatim>\<open>getattr(settings, name, default)\<close>.\<close>

definition setting :: "env \<Rightarrow> string \<Rightarrow> pyval \<Rightarrow> pyval" where
  "setting e name dflt = (case settings e name of None \<Rightarrow> dflt | Some v \<Rightarrow> v)"

text \<open>\<^verbatim>\<open>data.get(key)\<close> on a value that need not be a dict.\<close>

definition method_get :: "pyval \<Rightarrow> string \<Rightarrow> exn + pyval" where
  "method_get data k = (case data of PDict kvs \<Rightarrow> Inr (dict_get kvs k) | _ \<Rightarrow> Inl AttributeError)"

text \<open>\<^verbatim>\<open>response.raise_for_status()\<close>: raises for the 4xx and 5xx codes.\<close>

definition raise_for_status :: "response \<Rightarrow> exn + unit" where
  "raise_for_status r =
     (if 400 \<le> status_code r \<and> status_code r < 600 then Inl HTTPError else Inr ())"

section \<open>The client of \<^verbatim>\<open>omdb/client.py\<close>\<close>

text \<open>\<^verbatim>\<open>d[k] = v\<close> on a dict: the value is replaced in place, or the key appended.\<close>

fun dict_set :: "(string \<times> pyval) list \<Rightarrow> string \<Rightarrow> pyval \<Rightarrow> (string \<times> pyval) list" where
  "dict_set [] k v = [(k, v)]"
| "dict_set ((k', v') # kvs) k v =
     (if k' = k then (k, v) # kvs else (k', v') # dict_set kvs k v)"

text \<open>
  Binding a call to a signature of named parameters with optional defaults: too many
  positional arguments, an unknown keyword, a parameter given twice or a parameter
  without value and default raise \<^verbatim>\<open>TypeError\<close>.
\<close>

fun bind_params :: "(string \<times> pyval option) list \<Rightarrow> pyval list \<Rightarrow> (string \<times> pyval) list
                    \<Rightarrow> exn + pyval list" where
  "bind_params [] pos kw = (if pos = [] then Inr [] else Inl TypeError)"
| "bind_params ((name, dflt) # ps) (a # pos) kw =
     (if map_of kw name \<noteq> None then Inl TypeError
      else bind_res (bind_params ps pos kw) (\<lambda>vs. Inr (a # vs)))"
| "bind_params ((name, dflt) # ps) [] kw =
     (case map_of kw name of
        Some v \<Rightarrow> bind_res (bind_params ps [] kw) (\<lambda>vs. Inr (v # vs))
      | None \<Rightarrow> (case dflt of
                   Some v \<Rightarrow> bind_res (bind_params ps [] kw) (\<lambda>vs. Inr (v # vs))
                 | None \<Rightarrow> Inl TypeError))"

definition bind_args :: "(string \<times> pyval option) list \<Rightarrow> call \<Rightarrow> exn + pyval list" where
  "bind_args sig c =
     (if list_all (\<lambda>kv. fst kv \<in> set (map fst sig)) (kw_args c)
      then bind_params sig (pos_args c) (kw_args c)
      else Inl TypeError)"

text \<open>
  \<^verbatim>\<open>OmdbClient._make_request\<close> (lines 66 to 84); the client module's own log lines are
  left out.
\<close>

definition make_request :: "pyval \<Rightarrow> transport \<Rightarrow> (string \<times> pyval) list \<Rightarrow> exn + pyval" where
  "make_request api_key http params =
     bind_res (http (dict_set params ''apikey'' api_key)) (\<lambda>response.
     bind_res (if status_code response \<noteq> 200 then raise_for_status response else Inr ()) (\<lambda>u.
     bind_res (json_body response) (\<lambda>data.
     bind_res (method_get data ''Response'') (\<lambda>r.
       if r = PStr ''False'' then Inl ValueError else Inr data))))"

text \<open>\<^verbatim>\<open>OmdbClient.search(title, movie_type="movie", page=1)\<close>.\<close>

definition client_search :: "pyval \<Rightarrow> transport \<Rightarrow> call \<Rightarrow> exn + pyval" where
  "client_search api_key http c =
     bind_res (bind_args [(''title'', None), (''movie_type'', Some (PStr ''movie'')),
                          (''page'', Some (PInt 1))] c)
       (\<lambda>args. case args of
                  [title, movie_type, page] \<Rightarrow>
                    make_request api_key http
                      [(''s'', title), (''type'', movie_type), (''page'', page)]
                | _ \<Rightarrow> Inl TypeError)"

text \<open>\<^verbatim>\<open>OmdbClient.get_movie_details(imdb_id)\<close>.\<close>

definition client_get_movie_details :: "pyval \<Rightarrow> transport \<Rightarrow> call \<Rightarrow> exn + pyval" where
  "client_get_movie_details api_key http c =
     bind_res (bind_args [(''imdb_id'', None)] c)
       (\<lambda>args. case args of
                  [imdb_id] \<Rightarrow> make_request api_key http [(''i'', imdb_id), (''plot'', PStr ''full'')]
                | _ \<Rightarrow> Inl TypeError)"

text \<open>An \<^verbatim>\<open>OmdbClient(api_key)\<close> instance over a transport: its attribute and methods.\<close>

definition OmdbClient :: "pyval \<Rightarrow> transport \<Rightarrow> client" where
  "OmdbClient api_key http name =
     (if name = ''api_key'' then Some (Attr api_key)
      else if name = ''search'' then Some (Method (client_search api_key http))
      else if name = ''get_movie_details'' then
        Some (Method (client_get_movie_details api_key http))
      else if name = ''_make_request'' then
        Some (Method (\<lambda>c. bind_res (bind_args [(''params'', None)] c)
                (\<lambda>args. case args of
                           [PDict params] \<Rightarrow> make_request api_key http params
                         | _ \<Rightarrow> Inl TypeError)))
      else None)"

section \<open>The Method-Probing Resolver\<close>

text \<open>
  The loop of \<^verbatim>\<open>_fetch_by_imdb_id\<close> (lines 20 to 36) over the remaining candidate
  names.  \<open>Inr (Some v)\<close>: a call returned \<open>v\<close>; \<open>Inr None\<close>: the loop ran out of names;
  \<open>Inl e\<close>: the exception \<open>e\<close> left the function.  The handler \<^verbatim>\<open>except Exception\<close> of
  the outer \<^verbatim>\<open>try\<close> does not cover what is raised inside its sibling handler
  \<^verbatim>\<open>except TypeError\<close>: there only the inner \<^verbatim>\<open>try\<close> statements catch.  A member that is
  a zero-argument callable value raises \<^verbatim>\<open>TypeError\<close> under all three conventions,
  which ends in \<^verbatim>\<open>continue\<close>, as a member that is absent or not callable does.
\<close>

fun probe_by_id :: "client \<Rightarrow> pyval \<Rightarrow> string list \<Rightarrow> world \<Rightarrow> (exn + pyval option) \<times> world" where
  "probe_by_id c imdb_id [] w = (Inr None, w)"
| "probe_by_id c imdb_id (name # names) w =
     (case c name of
        Some (Method getter) \<Rightarrow>
          (let w1 = send (ClientCall name (Call [imdb_id] [])) w in
           case getter (Call [imdb_id] []) of
             Inr v \<Rightarrow> (Inr (Some v), w1)
           | Inl e1 \<Rightarrow>
               if e1 = TypeError then
                 (let w2 = send (ClientCall name (Call [] [(''imdbid'', imdb_id)])) w1 in
                  case getter (Call [] [(''imdbid'', imdb_id)]) of
                    Inr v \<Rightarrow> (Inr (Some v), w2)
                  | Inl e2 \<Rightarrow>
                      if e2 = TypeError then
                        (let w3 = send (ClientCall name (Call [] [(''id'', imdb_id)])) w2 in
                         case getter (Call [] [(''id'', imdb_id)]) of
                           Inr v \<Rightarrow> (Inr (Some v), w3)
                         | Inl e3 \<Rightarrow> probe_by_id c imdb_id names w3)
                      else (Inl e2, w2))
               else probe_by_id c imdb_id names w1)
      | _ \<Rightarrow> probe_by_id c imdb_id names w)"

definition candidate_names :: "string list" where
  "candidate_names = [''get_by_imdb_id'', ''by_id'', ''get_movie'', ''movie'', ''id'',
                      ''lookup'', ''get'']"

text \<open>The HTTP fallback (lines 38 to 59): it returns the payload or null.\<close>

definition http_fallback :: "env \<Rightarrow> pyval \<Rightarrow> world \<Rightarrow> pyval \<times> world" where
  "http_fallback e imdb_id w =
     (let api_key = py_or (py_or (setting e ''OMDB_API_KEY'' PNone)
                                 (setting e ''OMDB_APIKEY'' PNone))
                          (setting e ''OMDB_KEY'' PNone)
      in if \<not> truthy api_key then
           (PNone, log_line Error ''OMDb client lacks a by-ID method and no OMDB_API_KEY found'' w)
         else
           (let params = [(''i'', imdb_id), (''plot'', PStr ''full''), (''apikey'', api_key)];
                w1 = send (HttpGet params) w
            in case bind_res (http_get e params) (\<lambda>resp.
                    bind_res (raise_for_status resp) (\<lambda>u.
                    bind_res (json_body resp) (\<lambda>data.
                    bind_res (method_get data ''Response'') (\<lambda>r.
                      Inr (data, r = PStr ''True''))))) of
                 Inr (data, ok) \<Rightarrow>
                   if ok then (data, w1)
                   else (PNone, log_line Error ''OMDb responded with error'' w1)
               | Inl ex \<Rightarrow> (PNone, log_line Error ''HTTP fallback to OMDb failed'' w1)))"

text \<open>\<^verbatim>\<open>_fetch_by_imdb_id(omdb_client, imdb_id)\<close>.\<close>

definition fetch_by_imdb_id :: "env \<Rightarrow> client \<Rightarrow> pyval \<Rightarrow> world \<Rightarrow> (exn + pyval) \<times> world" where
  "fetch_by_imdb_id e c imdb_id w =
     (case probe_by_id c imdb_id candidate_names w of
        (Inl ex, w') \<Rightarrow> (Inl ex, w')
      | (Inr (Some v), w') \<Rightarrow> (Inr v, w')
      | (Inr None, w') \<Rightarrow> (case http_fallback e imdb_id w' of (v, w'') \<Rightarrow> (Inr v, w'')))"

section \<open>fill_movie_details\<close>

text \<open>
  \<^verbatim>\<open>get_or_create_genres\<close> consumed by the loop of lines 173 and 174: each name gets
  its Genre row if it has none, and the genre is added to the movie's association
  (adding an associated genre again changes nothing).
\<close>

fun add_genres :: "pyval \<Rightarrow> pyval list \<Rightarrow> world \<Rightarrow> world" where
  "add_genres key [] w = w"
| "add_genres key (genre_name # rest) w =
     add_genres key rest
       (w\<lparr>genre_rows := (if genre_name \<in> set (genre_rows w) then genre_rows w
                          else genre_rows w @ [genre_name]),
          movie_genres := (movie_genres w)
             (key := (if genre_name \<in> set (movie_genres w key) then movie_genres w key
                      else movie_genres w key @ [genre_name]))\<rparr>)"

text \<open>The elements of the \<^verbatim>\<open>Genres\<close> list of a normalized record.\<close>

fun list_items :: "pyval \<Rightarrow> pyval list" where
  "list_items (PList xs) = xs"
| "list_items v = []"

text \<open>
  \<^verbatim>\<open>fill_movie_details(movie)\<close>: the outcome, the movie instance after the call and the
  world after the call.
\<close>

definition fill_movie_details :: "env \<Rightarrow> movie \<Rightarrow> world \<Rightarrow> (exn + unit) \<times> movie \<times> world" where
  "fill_movie_details e movie w =
     (if m_is_full_record movie then
        (Inr (), movie, log_line Warning ''is already a full record'' w)
      else
        (case fetch_by_imdb_id e (omdb_client e) (m_imdb_id movie) w of
           (Inl ex, w1) \<Rightarrow> (Inl ex, movie, w1)
         | (Inr details_raw, w1) \<Rightarrow>
             if \<not> truthy details_raw then
               (Inr (), movie, log_line Error ''Unable to fetch details'' w1)
             else
               (case normalize_detail_obj details_raw of
                  Inl ex \<Rightarrow> (Inl ex, movie, w1)
                | Inr details \<Rightarrow>
                    (let movie' = movie\<lparr>
                           m_title := py_or (result_get (Inr details) ''Title'') (m_title movie),
                           m_year := py_or (result_get (Inr details) ''Year'') (m_year movie),
                           m_plot := result_get (Inr details) ''Plot'',
                           m_runtime_minutes := result_get (Inr details) ''RuntimeMinutes'',
                           m_is_full_record := True\<rparr>;
                         w2 = w1\<lparr>movie_genres := (movie_genres w1)(m_imdb_id movie := [])\<rparr>;
                         w3 = add_genres (m_imdb_id movie)
                                (list_items (result_get (Inr details) ''Genres'')) w2;
                         w4 = w3\<lparr>movies := (movies w3)(m_imdb_id movie \<mapsto> movie')\<rparr>
                     in (Inr (), movie', log_line Info ''updated with full details'' w4)))))"

section \<open>The Search-Item Normalizer\<close>

definition title_getters :: "string list" where
  "title_getters = [''get'', ''get_by_title'', ''title'', ''by_title'']"

text \<open>Line 192: \<^verbatim>\<open>getter(title=item) if getter_name == "get" else getter(item)\<close>.\<close>

definition title_call :: "string \<Rightarrow> string \<Rightarrow> call" where
  "title_call getter_name item =
     (if getter_name = ''get'' then Call [] [(''title'', PStr item)] else Call [PStr item] [])"

text \<open>Line 206: the record of a title that could not be resolved.\<close>

definition degraded_item :: "string \<Rightarrow> pyval" where
  "degraded_item item =
     PDict [(''Title'', PStr item), (''Year'', PNone), (''imdbID'', PNone), (''Type'', PNone)]"

text \<open>
  The body of the \<^verbatim>\<open>try\<close> for a callable getter (lines 192 to 200): \<open>Inr None\<close> when
  the result is falsy, so that the loop goes on.
\<close>

definition title_attempt :: "(call \<Rightarrow> exn + pyval) \<Rightarrow> string \<Rightarrow> string \<Rightarrow> exn + pyval option" where
  "title_attempt getter getter_name item =
     bind_res (getter (title_call getter_name item)) (\<lambda>res.
       if truthy res then
         bind_res (normalize_detail_obj res) (\<lambda>det.
         bind_res (if isinstance_dict res then method_get res ''Type''
                   else getattr_default res ''type'') (\<lambda>ty.
           Inr (Some (PDict [(''Title'', py_or (result_get (Inr det) ''Title'') (PStr item)),
                             (''Year'', result_get (Inr det) ''Year''),
                             (''imdbID'', result_get (Inr det) ''imdbID''),
                             (''Type'', ty)]))))
       else Inr None)"

text \<open>
  The loop of lines 188 to 206 over the remaining getter names: \<^verbatim>\<open>TypeError\<close> goes on
  to the next name, any other exception logs a warning and leaves the loop.
\<close>

fun lookup_title :: "client \<Rightarrow> string \<Rightarrow> string list \<Rightarrow> world \<Rightarrow> pyval \<times> world" where
  "lookup_title c item [] w = (degraded_item item, w)"
| "lookup_title c item (getter_name # rest) w =
     (case c getter_name of
        Some (Method getter) \<Rightarrow>
          (let w1 = send (ClientCall getter_name (title_call getter_name item)) w in
           case title_attempt getter getter_name item of
             Inr (Some d) \<Rightarrow> (d, w1)
           | Inr None \<Rightarrow> lookup_title c item rest w1
           | Inl ex \<Rightarrow>
               if ex = TypeError then lookup_title c item rest w1
               else (degraded_item item, log_line Warning ''Title lookup failed'' w1))
      | _ \<Rightarrow> lookup_title c item rest w)"

text \<open>\<^verbatim>\<open>_normalize_search_item(item, omdb_client)\<close>.\<close>

definition normalize_search_item :: "client \<Rightarrow> pyval \<Rightarrow> world \<Rightarrow> (exn + pyval) \<times> world" where
  "normalize_search_item c item w =
     (case item of
        PStr s \<Rightarrow> (case lookup_title c s title_getters w of (d, w') \<Rightarrow> (Inr d, w'))
      | PDict kvs \<Rightarrow>
          (Inr (PDict [(''Title'', dict_get kvs ''Title''),
                       (''Year'', dict_get kvs ''Year''),
                       (''imdbID'', py_or (py_or (dict_get kvs ''imdbID'') (dict_get kvs ''imdb_id''))
                                          (dict_get kvs ''imdbId'')),
                       (''Type'', dict_get kvs ''Type'')]), w)
      | _ \<Rightarrow>
          (bind_res (callable_attr item ''title'') (\<lambda>title.
           bind_res (callable_attr item ''year'') (\<lambda>year.
           bind_res (or_else (callable_attr item ''imdb_id'')
                             (callable_attr item ''imdbID'')) (\<lambda>imdb_id.
           bind_res (callable_attr item ''type'') (\<lambda>ty.
             Inr (PDict [(''Title'', title), (''Year'', year), (''imdbID'', imdb_id),
                         (''Type'', ty)]))))), w))"

section \<open>The Cache Guard and search_and_save\<close>

text \<open>\<^verbatim>\<open>str.lower()\<close> on one code point below 256.\<close>

definition lower_char :: "char \<Rightarrow> char" where
  "lower_char c = (let n = (of_char c :: nat)
                   in if (65 \<le> n \<and> n \<le> 90) \<or> (192 \<le> n \<and> n \<le> 222 \<and> n \<noteq> 215)
                      then char_of (n + 32) else c)"

text \<open>\<^verbatim>\<open>re.sub(r"\s+", " ", s)\<close>: every maximal run of white space becomes one space.\<close>

function collapse_ws :: "string \<Rightarrow> string" where
  "collapse_ws [] = []"
| "collapse_ws (c # cs) =
     (if is_space c then CHR '' '' # collapse_ws (dropWhile is_space cs)
      else c # collapse_ws cs)"
  by pat_completeness auto
termination
  by (relation "measure length") (auto simp: length_dropWhile_le less_Suc_eq_le)

text \<open>Line 240.\<close>

definition normalize_term :: "string \<Rightarrow> string" where
  "normalize_term search = collapse_ws (map lower_char search)"

text \<open>\<^verbatim>\<open>timedelta(days=1)\<close> in microseconds.\<close>

definition one_day :: int where
  "one_day = 86400000000"

text \<open>\<^verbatim>\<open>_should_override_cache_guard()\<close>: the value of the \<^verbatim>\<open>or\<close>.\<close>

definition should_override_cache_guard :: "env \<Rightarrow> pyval" where
  "should_override_cache_guard e =
     py_or (setting e ''OMDB_ALLOW_RESCRAPE'' (PBool False)) (setting e ''DEBUG'' (PBool False))"

text \<open>
  Modelled from the spec: \<^verbatim>\<open>SearchTerm.objects.get_or_create(term=...)\<close> of the
  absent \<^verbatim>\<open>movies.models\<close> (line 242), a get-or-create on the key-unique SearchTerm
  rows: the row's \<^verbatim>\<open>last_search\<close>, whether the row was created, and the world with
  the row.
\<close>

definition get_or_create_search_term :: "string \<Rightarrow> world \<Rightarrow> (int option \<times> bool) \<times> world" where
  "get_or_create_search_term term w =
     (case search_terms w term of
        Some last_search \<Rightarrow> ((last_search, False), w)
      | None \<Rightarrow> ((None, True), w\<lparr>search_terms := (search_terms w)(term \<mapsto> None)\<rparr>))"

text \<open>Line 244: the truth value of \<^verbatim>\<open>recent\<close>.\<close>

definition is_recent :: "env \<Rightarrow> int option \<Rightarrow> bool \<Rightarrow> bool" where
  "is_recent e last_search created =
     (\<not> created \<and> (case last_search of
                      None \<Rightarrow> False
                    | Some t \<Rightarrow> t > now_guard e - one_day))"

text \<open>\<^verbatim>\<open>len(v)\<close> and the elements a \<^verbatim>\<open>for\<close> loop visits.\<close>

fun py_len :: "pyval \<Rightarrow> exn + nat" where
  "py_len (PStr s) = Inr (length s)"
| "py_len (PList xs) = Inr (length xs)"
| "py_len (PTuple xs) = Inr (length xs)"
| "py_len (PDict kvs) = Inr (length kvs)"
| "py_len v = Inl TypeError"

fun py_iter :: "pyval \<Rightarrow> exn + pyval list" where
  "py_iter (PStr s) = Inr (map (\<lambda>ch. PStr [ch]) s)"
| "py_iter (PList xs) = Inr xs"
| "py_iter (PTuple xs) = Inr xs"
| "py_iter (PDict kvs) = Inr (map (\<lambda>kv. PStr (fst kv)) kvs)"
| "py_iter v = Inl TypeError"

text \<open>Line 260, \<^verbatim>\<open>omdb_client.search(search)\<close>: the one client call outside any \<^verbatim>\<open>try\<close>.\<close>

definition call_search :: "client \<Rightarrow> string \<Rightarrow> world \<Rightarrow> (exn + pyval) \<times> world" where
  "call_search c search w =
     (case c ''search'' of
        None \<Rightarrow> (Inl AttributeError, w)
      | Some (Attr v) \<Rightarrow> (Inl TypeError, w)
      | Some (Method f) \<Rightarrow>
          (f (Call [PStr search] []), send (ClientCall ''search'' (Call [PStr search] [])) w))"

text \<open>Lines 263 to 270: the envelope; \<^verbatim>\<open>len(inner)\<close> is an argument of the debug line.\<close>

definition unwrap_envelope :: "pyval \<Rightarrow> world \<Rightarrow> (exn + pyval) \<times> world" where
  "unwrap_envelope results w =
     (case results of
        PDict kvs \<Rightarrow>
          (let inner = py_or (py_or (dict_get kvs ''Search'') (dict_get kvs ''search''))
                             (dict_get kvs ''results'')
           in if inner = PNone then
                (Inr (PList []), log_line Warning ''OMDb returned a dict without a Search array'' w)
              else (case py_len inner of
                      Inl ex \<Rightarrow> (Inl ex, w)
                    | Inr n \<Rightarrow> (Inr inner, log_line Debug ''Extracted items from OMDb Search array'' w)))
      | _ \<Rightarrow> (Inr results, w))"

text \<open>
  Lines 289 to 299: the by-title resolution of a missing identifier; it yields the
  title, the year and the identifier to go on with.  A \<^verbatim>\<open>get\<close> that is a
  zero-argument callable value raises \<^verbatim>\<open>TypeError\<close> on the keyword call, which the
  \<^verbatim>\<open>except Exception\<close> logs.
\<close>

definition resolve_by_title :: "client \<Rightarrow> pyval \<Rightarrow> pyval \<Rightarrow> pyval \<Rightarrow> world
                                \<Rightarrow> (pyval \<times> pyval \<times> pyval) \<times> world" where
  "resolve_by_title c title year imdb_id w =
     (if \<not> truthy imdb_id \<and> truthy title then
        (case c ''get'' of
           Some (Method resolver) \<Rightarrow>
             (let cl = (if truthy year then Call [] [(''title'', title), (''year'', year)]
                        else Call [] [(''title'', title)]);
                  w1 = send (ClientCall ''get'' cl) w
              in case bind_res (resolver cl) normalize_detail_obj of
                   Inr details \<Rightarrow>
                     ((py_or (result_get (Inr details) ''Title'') title,
                       py_or (result_get (Inr details) ''Year'') year,
                       py_or (result_get (Inr details) ''imdbID'') imdb_id), w1)
                 | Inl ex \<Rightarrow>
                     ((title, year, imdb_id), log_line Warning ''Failed to resolve imdbID'' w1))
         | Some (Attr v) \<Rightarrow>
             if callable v
             then ((title, year, imdb_id), log_line Warning ''Failed to resolve imdbID'' w)
             else ((title, year, imdb_id), w)
         | None \<Rightarrow> ((title, year, imdb_id), w))
      else ((title, year, imdb_id), w))"

text \<open>The partial record that \<^verbatim>\<open>Movie.objects.get_or_create\<close> inserts (lines 319 to 325).\<close>

definition new_movie :: "pyval \<Rightarrow> pyval \<Rightarrow> pyval \<Rightarrow> movie" where
  "new_movie imdb_id title year_val =
     \<lparr>m_imdb_id = imdb_id, m_title = title, m_year = year_val, m_plot = PNone,
      m_runtime_minutes = PNone, m_is_full_record = False\<rparr>"

text \<open>The body of the loop over the results (lines 276 to 327).\<close>

definition process_item :: "client \<Rightarrow> pyval \<Rightarrow> world \<Rightarrow> (exn + unit) \<times> world" where
  "process_item c raw w =
     (case normalize_search_item c raw w of
        (Inl ex, w1) \<Rightarrow> (Inl ex, w1)
      | (Inr data, w1) \<Rightarrow>
          if \<not> truthy data then (Inr (), w1)
          else if truthy (result_get (Inr data) ''Type'')
                  \<and> result_get (Inr data) ''Type'' \<noteq> PStr ''movie'' then (Inr (), w1)
          else
            (case resolve_by_title c (result_get (Inr data) ''Title'')
                    (result_get (Inr data) ''Year'') (result_get (Inr data) ''imdbID'') w1 of
               ((title, year, imdb_id), w2) \<Rightarrow>
                 if \<not> truthy imdb_id then
                   (Inr (), log_line Warning ''Skipping item without imdbID'' w2)
                 else
                   (let year_val = normalize_year_search year;
                        w3 = log_line Info ''Saving movie'' w2
                    in case movies w3 imdb_id of
                         Some m \<Rightarrow> (Inr (), w3)
                       | None \<Rightarrow>
                           (Inr (), log_line Info ''Movie created''
                              (w3\<lparr>movies := (movies w3)
                                     (imdb_id \<mapsto> new_movie imdb_id title year_val)\<rparr>)))))"

fun process_results :: "client \<Rightarrow> pyval list \<Rightarrow> world \<Rightarrow> (exn + unit) \<times> world" where
  "process_results c [] w = (Inr (), w)"
| "process_results c (raw # rest) w =
     (case process_item c raw w of
        (Inl ex, w1) \<Rightarrow> (Inl ex, w1)
      | (Inr u, w1) \<Rightarrow> process_results c rest w1)"

text \<open>Lines 257 to 331: the search itself, once the guard has let it through.\<close>

definition run_search :: "env \<Rightarrow> string \<Rightarrow> string \<Rightarrow> world \<Rightarrow> (exn + unit) \<times> world" where
  "run_search e search term w =
     (case call_search (omdb_client e) search w of
        (Inl ex, w1) \<Rightarrow> (Inl ex, w1)
      | (Inr r, w1) \<Rightarrow>
          (case unwrap_envelope (py_or r (PList [])) w1 of
             (Inl ex, w2) \<Rightarrow> (Inl ex, w2)
           | (Inr results, w2) \<Rightarrow>
               (let w3 = (if \<not> truthy results then log_line Info ''No results returned'' w2
                          else w2)
                in case py_iter results of
                     Inl ex \<Rightarrow> (Inl ex, w3)
                   | Inr items \<Rightarrow>
                       (case process_results (omdb_client e) items w3 of
                          (Inl ex, w4) \<Rightarrow> (Inl ex, w4)
                        | (Inr u, w4) \<Rightarrow>
                            (Inr (), w4\<lparr>search_terms :=
                                          (search_terms w4)(term \<mapsto> Some (now_stamp e))\<rparr>)))))"

text \<open>Lines 245 to 250: whether the guard ends the call.\<close>

definition guard_skips :: "env \<Rightarrow> int option \<Rightarrow> bool \<Rightarrow> bool" where
  "guard_skips e last_search created =
     (is_recent e last_search created \<and> \<not> truthy (should_override_cache_guard e))"

text \<open>\<^verbatim>\<open>search_and_save(search)\<close>.\<close>

definition search_and_save :: "env \<Rightarrow> string \<Rightarrow> world \<Rightarrow> (exn + unit) \<times> world" where
  "search_and_save e search w =
     (let normalized_search_term = normalize_term search
      in case get_or_create_search_term normalized_search_term w of
           ((last_search, created), w1) \<Rightarrow>
             if guard_skips e last_search created then
               (Inr (), log_line Warning ''was performed in the past 24 hours so not searching again'' w1)
             else
               (let w2 = (if is_recent e last_search created
                             \<and> truthy (should_override_cache_guard e)
                          then log_line Warning ''was performed in the past 24 hours, overriding'' w1
                          else w1);
                    w3 = log_line Info ''Performing a search'' w2
                in run_search e search normalized_search_term w3))"

section \<open>Concrete clients, transports and worlds\<close>

definition empty_world :: world where
  "empty_world = \<lparr>search_terms = Map.empty, movies = Map.empty, genre_rows = [],
                   movie_genres = (\<lambda>k. []), upstream = [], logged = []\<rparr>"

definition plain_env :: "client \<Rightarrow> transport \<Rightarrow> int \<Rightarrow> env" where
  "plain_env c http t = \<lparr>settings = Map.empty, omdb_client = c, http_get = http,
                          now_guard = t, now_stamp = t\<rparr>"

text \<open>A transport that is never reached in the examples that use it.\<close>

definition no_transport :: transport where
  "no_transport params = Inl ConnectionError"

text \<open>
  A client whose only by-ID method is
  \<^verbatim>\<open>def get_by_imdb_id(self, *, imdbid): raise HTTPError\<close>:
  the identifier is keyword-only and the upstream request fails.
\<close>

definition keyword_only_getter :: "call \<Rightarrow> exn + pyval" where
  "keyword_only_getter c =
     bind_res (if pos_args c = [] then bind_args [(''imdbid'', None)] c else Inl TypeError)
       (\<lambda>args. Inl HTTPError)"

definition keyword_only_client :: client where
  "keyword_only_client name =
     (if name = ''get_by_imdb_id'' then Some (Method keyword_only_getter) else None)"

text \<open>OMDb's answer to a search without match: status 200 and \<^verbatim>\<open>Response: "False"\<close>.\<close>

definition not_found_transport :: transport where
  "not_found_transport params =
     Inr \<lparr>status_code = 200,
          json_body = Inr (PDict [(''Response'', PStr ''False''),
                                  (''Error'', PStr ''Movie not found!'')])\<rparr>"

text \<open>A server error: status 500.\<close>

definition server_error_transport :: transport where
  "server_error_transport params = Inr \<lparr>status_code = 500, json_body = Inl ValueError\<rparr>"

text \<open>
  A client whose only lookup method is \<^verbatim>\<open>def get(self, title, /)\<close>: the title is
  positional-only, and the method returns a movie.
\<close>

definition up_movie :: pyval where
  "up_movie = PDict [(''Title'', PStr ''Up''), (''Year'', PStr ''2009''),
                     (''imdbID'', PStr ''tt1049413''), (''Type'', PStr ''movie'')]"





text \<open>A client whose \<^verbatim>\<open>search\<close> returns one movie entry.\<close>

definition one_hit_client :: client where
  "one_hit_client name =
     (if name = ''search'' then Some (Method (\<lambda>c. Inr (PDict [(''Search'', PList [up_movie])])))
      else None)"

section \<open>Observations on a call\<close>

text \<open>
  \<open>extends w w'\<close>: from \<open>w\<close> to \<open>w'\<close> requests were only added after those already sent,
  and the SearchTerm rows are the same.
\<close>

definition extends :: "world \<Rightarrow> world \<Rightarrow> bool" where
  "extends w w' = ((\<exists>ext. upstream w' = upstream w @ ext) \<and> search_terms w' = search_terms w)"

text \<open>Whether the guard of \<^verbatim>\<open>search_and_save\<close> ends the call for this query and world.\<close>

definition search_skipped :: "env \<Rightarrow> string \<Rightarrow> world \<Rightarrow> bool" where
  "search_skipped e search w =
     (case get_or_create_search_term (normalize_term search) w of
        ((last_search, created), w1) \<Rightarrow> guard_skips e last_search created)"

text \<open>
  The requests of a string lookup that runs through all of the given getter names:
  one call for each name that is a method of the client.
\<close>

definition title_calls :: "client \<Rightarrow> string \<Rightarrow> string list \<Rightarrow> request list" where
  "title_calls c item names =
     [ClientCall n (title_call n item).
        n \<leftarrow> names, (case c n of Some (Method g) \<Rightarrow> True | _ \<Rightarrow> False)]"


text \<open>A world in which \<^verbatim>\<open>"the matrix"\<close> was searched at time \<open>t\<close>.\<close>

definition searched_world :: "int \<Rightarrow> world" where
  "searched_world t = empty_world\<lparr>search_terms := [''the matrix'' \<mapsto> Some t]\<rparr>"

text \<open>An environment whose settings have \<^verbatim>\<open>DEBUG = True\<close>.\<close>

definition debug_env :: "client \<Rightarrow> transport \<Rightarrow> int \<Rightarrow> env" where
  "debug_env c http t = (plain_env c http t)\<lparr>settings := [''DEBUG'' \<mapsto> PBool True]\<rparr>"

text \<open>Twenty-three hours, in microseconds.\<close>

definition hours_23 :: int where
  "hours_23 = 82800000000"


text \<open>
  A string in which white space occurs only as single spaces: every white-space
  character is \<^verbatim>\<open>" "\<close> and is not followed by another one.
\<close>

fun collapsed :: "string \<Rightarrow> bool" where
  "collapsed [] = True"
| "collapsed [c] = (if is_space c then c = CHR '' '' else True)"
| "collapsed (c # d # cs) =
     ((if is_space c then c = CHR '' '' \<and> \<not> is_space d else True) \<and> collapsed (d # cs))"

section \<open>Properties of the value model\<close>

lemma digits_value_snoc:
  "digits_value (s @ [c]) = 10 * digits_value s + int (of_char c - 48)"
  by (simp add: digits_value_def)

lemma digits_value_bounds:
  "list_all is_decimal s \<Longrightarrow> 0 \<le> digits_value s \<and> digits_value s < 10 ^ length s"
proof (induction s rule: rev_induct)
  case Nil
  then show ?case by (simp add: digits_value_def)
next
  case (snoc c s)
  then have ih: "0 \<le> digits_value s" "digits_value s < 10 ^ length s" by simp_all
  from snoc.prems have "is_decimal c" by simp
  then have d: "int (of_char c - 48) \<le> 9" by (auto simp: is_decimal_def)
  from ih(2) have "digits_value s + 1 \<le> 10 ^ length s" by simp
  then have "10 * digits_value s + 10 \<le> 10 * 10 ^ length s" by simp
  with ih(1) d show ?case by (simp add: digits_value_snoc)
qed

lemma re_match_d4_Some:
  "re_match_d4 s = Some g \<Longrightarrow>
     g = take 4 s \<and> 4 \<le> length s \<and> list_all is_decimal g \<and> g \<noteq> []"
  by (auto simp: re_match_d4_def split: if_splits)

lemma strip_hd_last:
  assumes "strip t \<noteq> []"
  shows "\<not> is_space (hd (strip t)) \<and> \<not> is_space (last (strip t))"
proof -
  define u where "u = dropWhile is_space t"
  define v where "v = dropWhile is_space (rev u)"
  have st: "strip t = rev v" by (simp add: strip_def u_def v_def)
  with assms have vne: "v \<noteq> []" by simp
  then have hv: "\<not> is_space (hd v)" unfolding v_def by (rule hd_dropWhile)
  have "rev u = takeWhile is_space (rev u) @ v" by (simp add: v_def)
  then have "rev (rev u) = rev (takeWhile is_space (rev u) @ v)" by simp
  then have u_eq: "u = rev v @ rev (takeWhile is_space (rev u))" by simp
  from vne u_eq have une: "u \<noteq> []" by auto
  then have hu: "\<not> is_space (hd u)" unfolding u_def by (rule hd_dropWhile)
  from u_eq vne have "hd u = hd (rev v)" by (metis hd_append2 rev_is_Nil_conv)
  with hu hv vne show ?thesis by (simp add: st last_rev)
qed

section \<open>Year normalization\<close>

text \<open>
  C10: the inline year normalization of \<^verbatim>\<open>search_and_save\<close> gives, on every input
  value, the same integer-or-null result as the year normalization inside
  \<^verbatim>\<open>_normalize_detail_obj\<close>.
\<close>

theorem year_blocks_agree: "normalize_year_search year = normalize_year_detail year"
proof -
  have "year_try_search year = year_try_detail year"
    by (auto simp: year_try_search_def year_try_detail_def bind_res_def
             split: sum.splits option.splits)
  then show ?thesis by (simp add: normalize_year_search_def normalize_year_detail_def)
qed

text \<open>
  C4, as stated, fails: the all-digit string \<^verbatim>\<open>"12"\<close> goes through \<^verbatim>\<open>int(year)\<close> and
  yields the integer 12, which is neither null nor a 4-digit integer.
\<close>

theorem year_not_four_digit_counterexample:
  "result_get (normalize_detail_obj (PDict [(''Year'', PStr ''12'')])) ''Year'' = PInt 12
   \<and> (12 :: int) < 1000"
  by (simp add: result_get_def normalize_detail_obj_def read_fields_def bind_res_def
        dict_get_def py_or_def normalize_genres_def normalize_year_detail_def
        year_try_detail_def str_isdigit_def char_isdigit_def is_decimal_def py_int_def
        digits_value_def max_str_digits_def)
lemma py_int_four:
  "4 \<le> length s \<Longrightarrow> list_all is_decimal (take 4 s) \<Longrightarrow>
     py_int (take 4 s) = Inr (PInt (digits_value (take 4 s)))"
  by (auto simp: py_int_def max_str_digits_def)

lemma normalize_year_detail_eq:
  "normalize_year_detail y =
     (if isinstance_int y then y
      else if isinstance_str y \<and> str_isdigit (str_text y) then
        (if list_all is_decimal (str_text y) \<and> length (str_text y) \<le> max_str_digits
         then PInt (digits_value (str_text y)) else PNone)
      else if y = PNone then PNone
      else (case py_str y of
              Inl e \<Rightarrow> PNone
            | Inr s \<Rightarrow> (if 4 \<le> length s \<and> list_all is_decimal (take 4 s)
                        then PInt (digits_value (take 4 s)) else PNone)))"
proof (cases "isinstance_int y")
  case True
  then show ?thesis by (simp add: normalize_year_detail_def year_try_detail_def)
next
  case nint: False
  show ?thesis
  proof (cases "isinstance_str y \<and> str_isdigit (str_text y)")
    case True
    with nint show ?thesis
      by (auto simp: normalize_year_detail_def year_try_detail_def py_int_def str_isdigit_def)
  next
    case nd: False
    show ?thesis
    proof (cases "y = PNone")
      case True
      then show ?thesis by (simp add: normalize_year_detail_def year_try_detail_def bind_res_def)
    next
      case nn: False
      have body: "year_try_detail y
          = bind_res (bind_res (py_str y) (\<lambda>s. Inr (re_match_d4 s)))
              (\<lambda>m. case m of Some g \<Rightarrow> py_int g | None \<Rightarrow> Inr PNone)"
        using nint nd nn by (auto simp: year_try_detail_def)
      show ?thesis
      proof (cases "py_str y")
        case (Inl e)
        with nint nd nn body show ?thesis
          by (auto simp: normalize_year_detail_def bind_res_def)
      next
        case (Inr s)
        show ?thesis
        proof (cases "4 \<le> length s \<and> list_all is_decimal (take 4 s)")
          case True
          then have "re_match_d4 s = Some (take 4 s)" by (simp add: re_match_d4_def)
          with True Inr nint nd nn body py_int_four[of s] show ?thesis
            by (auto simp: normalize_year_detail_def bind_res_def)
        next
          case False
          then have "re_match_d4 s = None" by (auto simp: re_match_d4_def)
          with False Inr nint nd nn body show ?thesis
            by (auto simp: normalize_year_detail_def bind_res_def)
        qed
      qed
    qed
  qed
qed


lemma four_digits_range:
  assumes "list_all is_decimal p" and "length p = 4"
  shows "0 \<le> digits_value p \<and> digits_value p \<le> 9999"
  using digits_value_bounds[OF assms(1)] assms(2) by simp

lemma year_prefix:
  assumes "list_all is_decimal p" and "length p = 4" and "\<not> list_all char_isdigit t"
  shows "normalize_year_detail (PStr (p @ t)) = PInt (digits_value p)"
proof -
  have "\<not> str_isdigit (p @ t)" using assms(3) by (simp add: str_isdigit_def)
  moreover have "take 4 (p @ t) = p" using assms(2) by simp
  ultimately show ?thesis using assms(1,2) by (simp add: normalize_year_detail_eq)
qed

lemma detail_year_field:
  assumes "normalize_detail_obj d = Inr r"
  shows "\<exists>f. read_fields d = Inr f
           \<and> result_get (Inr r) ''Year'' = normalize_year_detail (f_year f)"
proof (cases "d = PNone")
  case True
  with assms have "r = PDict []" by (simp add: normalize_detail_obj_def)
  moreover have "\<exists>f. read_fields PNone = Inr f \<and> f_year f = PNone"
    by (simp add: read_fields_def callable_attr_def bind_res_def or_else_def)
  moreover have "normalize_year_detail PNone = PNone"
    by (simp add: normalize_year_detail_eq)
  ultimately show ?thesis using True by (auto simp: result_get_def dict_get_def)
next
  case False
  with assms obtain f g where "read_fields d = Inr f" "normalize_genres (f_genres f) = Inr g"
    and "r = PDict [(''Title'', f_title f),
                    (''Year'', normalize_year_detail (f_year f)),
                    (''imdbID'', f_imdb_id f),
                    (''Plot'', f_plot f),
                    (''RuntimeMinutes'', normalize_runtime (f_runtime_str f)),
                    (''Genres'', g)]"
    by (auto simp: normalize_detail_obj_def bind_res_def split: sum.splits)
  then show ?thesis by (simp add: result_get_def dict_get_def)
qed

text \<open>
  C4, amended: the Year field of a returned record is the year normalization of the
  raw year read off the payload, and that normalization is this mapping.  An integer
  (booleans included) passes through unchanged, whatever its size.  A string for which
  \<^verbatim>\<open>isdigit()\<close> holds gives its integer value when all its characters are decimal
  digits and there are at most 4300 of them, and null otherwise (a superscript digit,
  or more digits than \<^verbatim>\<open>int()\<close> converts).  Null gives null.  Any other value gives the
  integer written by the first four characters of \<^verbatim>\<open>str(year)\<close> when these are four
  decimal digits, which lies between 0 and 9999, and null otherwise, also when
  \<^verbatim>\<open>str\<close> raises.  In particular four digits followed by anything that is not all
  digits, as in an open-ended range, give the year of the four digits.
\<close>

theorem detail_year_amended:
  "normalize_year_detail y =
     (if isinstance_int y then y
      else if isinstance_str y \<and> str_isdigit (str_text y) then
        (if list_all is_decimal (str_text y) \<and> length (str_text y) \<le> max_str_digits
         then PInt (digits_value (str_text y)) else PNone)
      else if y = PNone then PNone
      else (case py_str y of
              Inl e \<Rightarrow> PNone
            | Inr s \<Rightarrow> (if 4 \<le> length s \<and> list_all is_decimal (take 4 s)
                        then PInt (digits_value (take 4 s)) else PNone)))
   \<and> (list_all is_decimal p \<and> length p = 4 \<longrightarrow>
        0 \<le> digits_value p \<and> digits_value p \<le> 9999)
   \<and> (list_all is_decimal p \<and> length p = 4 \<and> \<not> list_all char_isdigit t \<longrightarrow>
        normalize_year_detail (PStr (p @ t)) = PInt (digits_value p))
   \<and> (normalize_detail_obj d = Inr r \<longrightarrow>
        (\<exists>f. read_fields d = Inr f
            \<and> result_get (Inr r) ''Year'' = normalize_year_detail (f_year f)))
   \<and> max_str_digits = 4300"
  using normalize_year_detail_eq[of y] four_digits_range[of p] year_prefix[of p t]
    detail_year_field[of d r]
  by (simp add: max_str_digits_def)

theorem detail_year_amended_witness:
  "normalize_year_detail (PStr ''1999-2003'') = PInt 1999
   \<and> normalize_year_detail (PStr ''12'') = PInt 12
   \<and> normalize_year_detail (PStr (''2009'' @ [CHR 0xB2])) = PNone
   \<and> normalize_year_detail (PInt 123456) = PInt 123456
   \<and> normalize_year_detail (PList [PInt 1999]) = PNone
   \<and> result_get (normalize_detail_obj (PDict [(''Title'', PStr ''Up''), (''Year'', PStr ''1999-2003'')]))
        ''Year'' = PInt 1999"
proof -
  let ?d = "PDict [(''Title'', PStr ''Up''), (''Year'', PStr ''1999-2003'')]"
  let ?r = "PDict [(''Title'', PStr ''Up''), (''Year'', PInt 1999), (''imdbID'', PNone),
                   (''Plot'', PNone), (''RuntimeMinutes'', PNone), (''Genres'', PList [])]"
  have dv: "digits_value ''1999'' = 1999" "digits_value ''12'' = 12"
    by (simp_all add: digits_value_def)
  have p: "list_all is_decimal ''1999''" "length ''1999'' = 4"
    "\<not> list_all char_isdigit ''-2003''"
    by (simp_all add: is_decimal_def char_isdigit_def)
  from detail_year_amended[of "PStr ''12''" "''1999''" "''-2003''" ?d ?r] p
  have a: "normalize_year_detail (PStr (''1999'' @ ''-2003'')) = PInt (digits_value ''1999'')"
    by blast
  from detail_year_amended[of "PStr ''12''" "''1999''" "''-2003''" ?d ?r]
  have b: "normalize_year_detail (PStr ''12'') = PInt 12"
    by (simp add: str_isdigit_def char_isdigit_def is_decimal_def max_str_digits_def dv)
  from detail_year_amended[of "PStr (''2009'' @ [CHR 0xB2])" "''1999''" "''-2003''" ?d ?r]
  have c: "normalize_year_detail (PStr (''2009'' @ [CHR 0xB2])) = PNone"
    by (simp add: str_isdigit_def char_isdigit_def is_decimal_def)
  from detail_year_amended[of "PInt 123456" "''1999''" "''-2003''" ?d ?r]
  have d: "normalize_year_detail (PInt 123456) = PInt 123456"
    by simp
  have "py_str (PList [PInt 1999]) = Inr ''[1999]''" by code_simp
  with detail_year_amended[of "PList [PInt 1999]" "''1999''" "''-2003''" ?d ?r]
  have e: "normalize_year_detail (PList [PInt 1999]) = PNone"
    by (simp add: is_decimal_def)
  have ev: "normalize_detail_obj ?d = Inr ?r"
    using a by (simp add: normalize_detail_obj_def read_fields_def bind_res_def dict_get_def
        py_or_def normalize_genres_def normalize_runtime_def runtime_try_def dv)
  from detail_year_amended[of "PStr ''12''" "''1999''" "''-2003''" ?d ?r] ev
  have f: "\<exists>f. read_fields ?d = Inr f
            \<and> result_get (Inr ?r) ''Year'' = normalize_year_detail (f_year f)"
    by blast
  have g: "result_get (normalize_detail_obj ?d) ''Year'' = PInt 1999"
    unfolding ev by (simp add: result_get_def dict_get_def)
  from a b c d e g show ?thesis by (simp add: dv)
qed

section \<open>Genre normalization\<close>

text \<open>
  C8, as stated, fails on a sequence: an element that trims to the empty string is
  dropped, so the result is not the sequence of the elements stringified and trimmed.
\<close>

theorem genres_not_all_elements_counterexample:
  "normalize_genres (PList [PStr ''Action'', PStr '' ''])
     \<noteq> Inr (PList [PStr (strip ''Action''), PStr (strip '' '')])"
  by (simp add: normalize_genres_def bind_res_def strip_def is_space_def)
lemma genres_elements_trimmed:
  "\<forall>p \<in> set (filter (\<lambda>p. p \<noteq> []) (map strip ts)).
      p \<noteq> [] \<and> \<not> is_space (hd p) \<and> \<not> is_space (last p)"
  using strip_hd_last by auto

lemma comprehension_filter:
  "[strip t. t \<leftarrow> ts, strip t \<noteq> []] = filter (\<lambda>p. p \<noteq> []) (map strip ts)"
  by (induction ts) auto

text \<open>
  C8, amended: a string maps to the trimmed non-empty parts between its commas; a list
  or tuple whose elements all stringify maps to its elements stringified and trimmed,
  without those that trim to empty; any other value maps to the empty list.  Every
  element of a result is a non-empty string with no white space at either end.
  \<^verbatim>\<open>"Action, Drama"\<close> gives \<^verbatim>\<open>["Action", "Drama"]\<close>, \<^verbatim>\<open>[]\<close> gives \<^verbatim>\<open>[]\<close> and null
  gives \<^verbatim>\<open>[]\<close>.
\<close>

theorem normalize_genres_amended:
  "normalize_genres (PStr s)
     = Inr (PList (map PStr (filter (\<lambda>p. p \<noteq> []) (map strip (split_on (CHR '','') s)))))
   \<and> (sequence (map py_str gs) = Inr ts \<longrightarrow>
        normalize_genres (PList gs)
          = Inr (PList (map PStr (filter (\<lambda>p. p \<noteq> []) (map strip ts))))
        \<and> normalize_genres (PTuple gs)
          = Inr (PList (map PStr (filter (\<lambda>p. p \<noteq> []) (map strip ts)))))
   \<and> (\<not> isinstance_str g \<and> \<not> isinstance_seq g \<longrightarrow> normalize_genres g = Inr (PList []))
   \<and> (normalize_genres g' = Inr out \<longrightarrow>
        (\<exists>ps. out = PList (map PStr ps)
           \<and> (\<forall>p \<in> set ps. p \<noteq> [] \<and> \<not> is_space (hd p) \<and> \<not> is_space (last p))))
   \<and> normalize_genres (PStr ''Action, Drama'') = Inr (PList [PStr ''Action'', PStr ''Drama''])
   \<and> normalize_genres (PList []) = Inr (PList [])
   \<and> normalize_genres PNone = Inr (PList [])"
proof -
  have a: "normalize_genres (PStr s)
     = Inr (PList (map PStr (filter (\<lambda>p. p \<noteq> []) (map strip (split_on (CHR '','') s)))))"
    by (simp add: normalize_genres_def comprehension_filter)
  have b: "sequence (map py_str gs) = Inr ts \<longrightarrow>
        normalize_genres (PList gs)
          = Inr (PList (map PStr (filter (\<lambda>p. p \<noteq> []) (map strip ts))))
        \<and> normalize_genres (PTuple gs)
          = Inr (PList (map PStr (filter (\<lambda>p. p \<noteq> []) (map strip ts))))"
    by (simp add: normalize_genres_def bind_res_def comprehension_filter)
  have c: "\<not> isinstance_str g \<and> \<not> isinstance_seq g \<longrightarrow> normalize_genres g = Inr (PList [])"
    by (cases g) (simp_all add: normalize_genres_def)
  have d: "normalize_genres g' = Inr out \<longrightarrow>
        (\<exists>ps. out = PList (map PStr ps)
           \<and> (\<forall>p \<in> set ps. p \<noteq> [] \<and> \<not> is_space (hd p) \<and> \<not> is_space (last p)))"
  proof
    assume r: "normalize_genres g' = Inr out"
    have "\<exists>ts. out = PList (map PStr (filter (\<lambda>p. p \<noteq> []) (map strip ts)))"
    proof (cases g')
      case (PStr s')
      with r show ?thesis by (auto simp: normalize_genres_def comprehension_filter)
    next
      case (PList gs')
      with r show ?thesis
        by (auto simp: normalize_genres_def bind_res_def comprehension_filter split: sum.splits)
    next
      case (PTuple gs')
      with r show ?thesis
        by (auto simp: normalize_genres_def bind_res_def comprehension_filter split: sum.splits)
    qed (use r in \<open>auto simp: normalize_genres_def intro: exI[of _ "[]"]\<close>)
    then obtain ts' where "out = PList (map PStr (filter (\<lambda>p. p \<noteq> []) (map strip ts')))" ..
    with genres_elements_trimmed[of ts'] show "\<exists>ps. out = PList (map PStr ps)
           \<and> (\<forall>p \<in> set ps. p \<noteq> [] \<and> \<not> is_space (hd p) \<and> \<not> is_space (last p))"
      by blast
  qed
  have e: "normalize_genres (PStr ''Action, Drama'') = Inr (PList [PStr ''Action'', PStr ''Drama''])"
    by (simp add: normalize_genres_def strip_def is_space_def)
  have f: "normalize_genres (PList []) = Inr (PList [])" "normalize_genres PNone = Inr (PList [])"
    by (simp_all add: normalize_genres_def bind_res_def)
  from a b c d e f show ?thesis by blast
qed

theorem normalize_genres_amended_witness:
  "sequence (map py_str [PStr '' Sci-Fi '', PInt 7, PStr '' '']) = Inr ['' Sci-Fi '', ''7'', '' '']
   \<and> normalize_genres (PList [PStr '' Sci-Fi '', PInt 7, PStr '' ''])
        = Inr (PList [PStr ''Sci-Fi'', PStr ''7''])
   \<and> normalize_genres (PTuple [PStr '' Sci-Fi '', PInt 7, PStr '' ''])
        = Inr (PList [PStr ''Sci-Fi'', PStr ''7''])
   \<and> normalize_genres (PInt 3) = Inr (PList [])
   \<and> normalize_genres (PStr ''a ,, b'') = Inr (PList [PStr ''a'', PStr ''b''])"
proof -
  have sq: "sequence (map py_str [PStr '' Sci-Fi '', PInt 7, PStr '' ''])
              = Inr ['' Sci-Fi '', ''7'', '' '']"
    by code_simp
  have st: "strip '' Sci-Fi '' = ''Sci-Fi''" "strip ''7'' = ''7''" "strip '' '' = []"
    "strip ''a '' = ''a''" "strip [] = []" "strip '' b'' = ''b''"
    by (simp_all add: strip_def is_space_def)
  from normalize_genres_amended[of "''a ,, b''" "[PStr '' Sci-Fi '', PInt 7, PStr '' '']"
        "['' Sci-Fi '', ''7'', '' '']" "PInt 3" "PStr ''a ,, b''" "PList [PStr ''a'', PStr ''b'']"]
  show ?thesis using sq by (simp add: st)
qed

section \<open>When the Detail Normalizer raises\<close>



lemma callable_attr_non_object:
  "(\<forall>attrs. d \<noteq> PObj attrs) \<Longrightarrow> callable_attr d name = Inr PNone"
  by (cases d) (simp_all add: callable_attr_def bind_res_def)








section \<open>What a search cycle leaves unchanged\<close>

lemma world_send [simp]:
  "upstream (send r w) = upstream w @ [r]" "search_terms (send r w) = search_terms w"
  "movies (send r w) = movies w" "logged (send r w) = logged w"
  by (simp_all add: send_def)

lemma world_log_line [simp]:
  "upstream (log_line l m w) = upstream w" "search_terms (log_line l m w) = search_terms w"
  "movies (log_line l m w) = movies w" "logged (log_line l m w) = logged w @ [(l, m)]"
  by (simp_all add: log_line_def)

lemma extends_refl: "extends w w"
  by (simp add: extends_def)

lemma extends_trans: "extends w w1 \<Longrightarrow> extends w1 w2 \<Longrightarrow> extends w w2"
  by (auto simp: extends_def)

lemma extends_send: "extends w (send r w)"
  by (simp add: extends_def)

lemma extends_log_line: "extends w (log_line l m w)"
  by (simp add: extends_def)

lemma extends_movies: "extends w (w\<lparr>movies := ms\<rparr>)"
  by (simp add: extends_def)

lemma lookup_title_extends: "extends w (snd (lookup_title c item names w))"
proof (induction names arbitrary: w)
  case Nil
  show ?case by (simp add: extends_refl)
next
  case (Cons n names)
  show ?case
  proof (cases "c n")
    case None
    then show ?thesis using Cons.IH by simp
  next
    case (Some mem)
    show ?thesis
    proof (cases mem)
      case (Attr v)
      with Some show ?thesis using Cons.IH by simp
    next
      case (Method g)
      let ?w1 = "send (ClientCall n (title_call n item)) w"
      have step: "extends w ?w1" by (rule extends_send)
      have rest: "extends w (snd (lookup_title c item names ?w1))"
        using step Cons.IH[of ?w1] by (rule extends_trans)
      have abort: "extends w (log_line Warning ''Title lookup failed'' ?w1)"
        using step extends_log_line by (rule extends_trans)
      show ?thesis
      proof (cases "title_attempt g n item")
        case (Inl ex)
        with Some Method rest abort show ?thesis by (simp add: Let_def)
      next
        case (Inr r)
        with Some Method rest step show ?thesis by (cases r) (simp_all add: Let_def)
      qed
    qed
  qed
qed

lemma normalize_search_item_extends: "extends w (snd (normalize_search_item c item w))"
proof (cases item)
  case (PStr s)
  then show ?thesis using lookup_title_extends[of w c s title_getters]
    by (auto simp: normalize_search_item_def split: prod.splits)
qed (simp_all add: normalize_search_item_def extends_refl)

lemma resolve_by_title_extends: "extends w (snd (resolve_by_title c title year imdb_id w))"
  by (auto simp: resolve_by_title_def Let_def extends_refl extends_log_line extends_send
        intro: extends_trans[OF extends_send extends_log_line]
        split: option.splits member.splits sum.splits)

lemma process_item_extends: "extends w (snd (process_item c raw w))"
proof -
  obtain r w1 where n: "normalize_search_item c raw w = (r, w1)" by (cases "normalize_search_item c raw w")
  with normalize_search_item_extends[of w c raw] have e1: "extends w w1" by simp
  show ?thesis
  proof (cases r)
    case (Inl ex)
    with n e1 show ?thesis by (simp add: process_item_def)
  next
    case (Inr data)
    obtain t y i w2 where rs: "resolve_by_title c (result_get (Inr data) ''Title'')
                    (result_get (Inr data) ''Year'') (result_get (Inr data) ''imdbID'') w1 = ((t, y, i), w2)"
      by (metis prod.exhaust)
    with resolve_by_title_extends[of w1 c "result_get (Inr data) ''Title''"
        "result_get (Inr data) ''Year''" "result_get (Inr data) ''imdbID''"]
    have "extends w1 w2" by simp
    with e1 have e2: "extends w w2" by (rule extends_trans)
    have e3: "extends w (log_line Warning ''Skipping item without imdbID'' w2)"
      using e2 extends_log_line by (rule extends_trans)
    have e4: "extends w (log_line Info ''Saving movie'' w2)"
      using e2 extends_log_line by (rule extends_trans)
    have e5: "\<And>ms. extends w (log_line Info ''Movie created'' ((log_line Info ''Saving movie'' w2)\<lparr>movies := ms\<rparr>))"
      using e4 by (simp add: extends_def)
    from n Inr rs e1 e3 e4 e5 show ?thesis
      by (simp add: process_item_def Let_def split: option.splits)
  qed
qed

lemma process_results_extends: "extends w (snd (process_results c items w))"
proof (induction items arbitrary: w)
  case Nil
  show ?case by (simp add: extends_refl)
next
  case (Cons raw rest)
  obtain r w1 where p: "process_item c raw w = (r, w1)" by (cases "process_item c raw w")
  with process_item_extends[of w c raw] have e1: "extends w w1" by simp
  show ?case
  proof (cases r)
    case (Inl ex)
    with p e1 show ?thesis by simp
  next
    case (Inr u)
    with p show ?thesis using extends_trans[OF e1 Cons.IH[of w1]] by simp
  qed
qed

lemma unwrap_envelope_extends: "extends w (snd (unwrap_envelope results w))"
  by (cases results)
     (auto simp: unwrap_envelope_def Let_def extends_refl extends_log_line split: sum.splits)

lemma run_search_frame:
  assumes "omdb_client e ''search'' = Some (Method f)"
  shows "(\<exists>rest. upstream (snd (run_search e q term w))
                   = upstream w @ ClientCall ''search'' (Call [PStr q] []) # rest)
         \<and> (\<forall>k. k \<noteq> term \<longrightarrow> search_terms (snd (run_search e q term w)) k = search_terms w k)
         \<and> (search_terms w term \<noteq> None \<longrightarrow> search_terms (snd (run_search e q term w)) term \<noteq> None)"
proof -
  let ?w1 = "send (ClientCall ''search'' (Call [PStr q] [])) w"
  have cs: "call_search (omdb_client e) q w = (f (Call [PStr q] []), ?w1)"
    using assms by (simp add: call_search_def)
  have goal_of: "\<And>w'. extends ?w1 w' \<Longrightarrow>
      (\<exists>rest. upstream w' = upstream w @ ClientCall ''search'' (Call [PStr q] []) # rest)
      \<and> (\<forall>k. k \<noteq> term \<longrightarrow> search_terms w' k = search_terms w k)
      \<and> (search_terms w term \<noteq> None \<longrightarrow> search_terms w' term \<noteq> None)"
    by (auto simp: extends_def)
  have goal_of_stamp: "\<And>w' t. extends ?w1 w' \<Longrightarrow>
      (\<exists>rest. upstream (w'\<lparr>search_terms := (search_terms w')(term \<mapsto> t)\<rparr>)
                 = upstream w @ ClientCall ''search'' (Call [PStr q] []) # rest)
      \<and> (\<forall>k. k \<noteq> term \<longrightarrow> search_terms (w'\<lparr>search_terms := (search_terms w')(term \<mapsto> t)\<rparr>) k = search_terms w k)
      \<and> (search_terms w term \<noteq> None \<longrightarrow> search_terms (w'\<lparr>search_terms := (search_terms w')(term \<mapsto> t)\<rparr>) term \<noteq> None)"
    by (auto simp: extends_def)
  show ?thesis
  proof (cases "f (Call [PStr q] [])")
    case (Inl ex)
    with cs show ?thesis using goal_of[OF extends_refl] by (simp add: run_search_def)
  next
    case (Inr r)
    obtain u w2 where un: "unwrap_envelope (py_or r (PList [])) ?w1 = (u, w2)" by (metis prod.exhaust)
    with unwrap_envelope_extends[of ?w1 "py_or r (PList [])"] have e2: "extends ?w1 w2" by simp
    show ?thesis
    proof (cases u)
      case (Inl ex)
      with cs Inr un show ?thesis using goal_of[OF e2] by (simp add: run_search_def)
    next
      case res: (Inr results)
      define w3 where "w3 = (if \<not> truthy results then log_line Info ''No results returned'' w2 else w2)"
      have e3: "extends ?w1 w3"
        using e2 extends_trans[OF e2 extends_log_line] by (simp add: w3_def)
      show ?thesis
      proof (cases "py_iter results")
        case (Inl ex)
        with cs Inr un res show ?thesis using goal_of[OF e3] by (simp add: run_search_def w3_def Let_def)
      next
        case it: (Inr items)
        obtain p w4 where pr: "process_results (omdb_client e) items w3 = (p, w4)" by (metis prod.exhaust)
        with process_results_extends[of w3 "omdb_client e" items] have "extends w3 w4" by simp
        with e3 have e4: "extends ?w1 w4" by (rule extends_trans)
        show ?thesis
        proof (cases p)
          case (Inl ex)
          with cs Inr un res it pr show ?thesis using goal_of[OF e4]
            by (simp add: run_search_def w3_def Let_def)
        next
          case (Inr uu)
          with cs \<open>f (Call [PStr q] []) = Inr r\<close> un res it pr show ?thesis
            using goal_of_stamp[OF e4, of "Some (now_stamp e)"]
            by (simp add: run_search_def w3_def Let_def)
        qed
      qed
    qed
  qed
qed

section \<open>The Cache Guard\<close>

lemma search_skipped_iff:
  "search_skipped e q w \<longleftrightarrow>
     (\<exists>t. search_terms w (normalize_term q) = Some (Some t) \<and> now_guard e - one_day < t)
     \<and> \<not> truthy (should_override_cache_guard e)"
  by (auto simp: search_skipped_def get_or_create_search_term_def guard_skips_def is_recent_def
           split: option.splits)

lemma is_recent_iff:
  "is_recent e (fst (fst (get_or_create_search_term (normalize_term q) w)))
               (snd (fst (get_or_create_search_term (normalize_term q) w)))
   \<longleftrightarrow> (\<exists>t. search_terms w (normalize_term q) = Some (Some t) \<and> now_guard e - one_day < t)"
  by (auto simp: get_or_create_search_term_def is_recent_def split: option.splits)

lemma search_and_save_skips:
  assumes "search_skipped e q w"
  shows "search_and_save e q w
           = (Inr (), w\<lparr>logged := logged w @
                [(Warning, ''was performed in the past 24 hours so not searching again'')]\<rparr>)"
  using assms
  by (auto simp: search_and_save_def search_skipped_def get_or_create_search_term_def
        guard_skips_def is_recent_def log_line_def Let_def split: option.splits)

lemma search_and_save_proceeds:
  assumes "omdb_client e ''search'' = Some (Method f)" and "\<not> search_skipped e q w"
  shows "(\<exists>rest. upstream (snd (search_and_save e q w))
                   = upstream w @ ClientCall ''search'' (Call [PStr q] []) # rest)
         \<and> search_terms (snd (search_and_save e q w)) (normalize_term q) \<noteq> None
         \<and> (\<forall>k. k \<noteq> normalize_term q \<longrightarrow>
               search_terms (snd (search_and_save e q w)) k = search_terms w k)"
proof -
  obtain ls cr w1 where g: "get_or_create_search_term (normalize_term q) w = ((ls, cr), w1)"
    by (metis prod.exhaust)
  then have w1: "upstream w1 = upstream w" "search_terms w1 (normalize_term q) \<noteq> None"
    "\<forall>k. k \<noteq> normalize_term q \<longrightarrow> search_terms w1 k = search_terms w k"
    by (auto simp: get_or_create_search_term_def split: option.splits)
  define w3 where "w3 = log_line Info ''Performing a search''
      (if is_recent e ls cr \<and> truthy (should_override_cache_guard e)
       then log_line Warning ''was performed in the past 24 hours, overriding'' w1 else w1)"
  have w3: "upstream w3 = upstream w" "search_terms w3 = search_terms w1"
    using w1 by (simp_all add: w3_def)
  from assms(2) g have ns: "\<not> guard_skips e ls cr" by (simp add: search_skipped_def)
  with g have eq: "search_and_save e q w = run_search e q (normalize_term q) w3"
    by (simp add: search_and_save_def Let_def w3_def)
  from run_search_frame[OF assms(1), of q "normalize_term q" w3] w1 w3
  show ?thesis unfolding eq by auto
qed

text \<open>
  C6: the guard classifies a search as recent exactly when the SearchTerm row of the
  normalized term existed before the call and its \<^verbatim>\<open>last_search\<close> is later than one
  day before now; the override holds exactly when the rescrape-allow setting or the
  debug setting is truthy.  Recent and no override: \<^verbatim>\<open>search_and_save\<close> returns with
  the world unchanged but for one warning line, so nothing was sent upstream and no
  Movie row was created.  Recent with the override, or not recent: the search
  proceeds, its first request being the client's \<^verbatim>\<open>search\<close>.
\<close>

theorem cache_guard_policy:
  assumes "omdb_client e ''search'' = Some (Method f)"
  shows "(is_recent e (fst (fst (get_or_create_search_term (normalize_term q) w)))
                      (snd (fst (get_or_create_search_term (normalize_term q) w)))
          \<longleftrightarrow> (\<exists>t. search_terms w (normalize_term q) = Some (Some t)
                    \<and> now_guard e - one_day < t))
       \<and> (truthy (should_override_cache_guard e)
          \<longleftrightarrow> truthy (setting e ''OMDB_ALLOW_RESCRAPE'' (PBool False))
              \<or> truthy (setting e ''DEBUG'' (PBool False)))
       \<and> ((\<exists>t. search_terms w (normalize_term q) = Some (Some t) \<and> now_guard e - one_day < t)
            \<and> \<not> truthy (should_override_cache_guard e)
          \<longrightarrow> search_and_save e q w
                = (Inr (), w\<lparr>logged := logged w @
                     [(Warning, ''was performed in the past 24 hours so not searching again'')]\<rparr>))
       \<and> ((\<exists>t. search_terms w (normalize_term q) = Some (Some t) \<and> now_guard e - one_day < t)
            \<and> truthy (should_override_cache_guard e)
          \<longrightarrow> (\<exists>rest. upstream (snd (search_and_save e q w))
                        = upstream w @ ClientCall ''search'' (Call [PStr q] []) # rest))
       \<and> ((\<nexists>t. search_terms w (normalize_term q) = Some (Some t) \<and> now_guard e - one_day < t)
          \<longrightarrow> (\<exists>rest. upstream (snd (search_and_save e q w))
                        = upstream w @ ClientCall ''search'' (Call [PStr q] []) # rest))"
proof -
  have ov: "truthy (should_override_cache_guard e)
          \<longleftrightarrow> truthy (setting e ''OMDB_ALLOW_RESCRAPE'' (PBool False))
              \<or> truthy (setting e ''DEBUG'' (PBool False))"
    by (simp add: should_override_cache_guard_def py_or_def)
  show ?thesis
    using is_recent_iff[of e q w] ov search_and_save_skips[of e q w]
      search_and_save_proceeds[OF assms, of q w] search_skipped_iff[of e q w]
    by blast
qed

lemma normalize_the_matrix: "normalize_term ''The Matrix'' = ''the matrix''"
  by code_simp

theorem cache_guard_policy_witness:
  "upstream (snd (search_and_save (plain_env one_hit_client no_transport (100 * one_day))
                    ''The Matrix'' (searched_world (100 * one_day - hours_23)))) = []
   \<and> movies (snd (search_and_save (plain_env one_hit_client no_transport (100 * one_day))
                    ''The Matrix'' (searched_world (100 * one_day - hours_23)))) = Map.empty
   \<and> (\<exists>rest. upstream (snd (search_and_save (debug_env one_hit_client no_transport (100 * one_day))
                    ''The Matrix'' (searched_world (100 * one_day - hours_23))))
              = ClientCall ''search'' (Call [PStr ''The Matrix''] []) # rest)
   \<and> (\<exists>rest. upstream (snd (search_and_save (plain_env one_hit_client no_transport (100 * one_day))
                    ''The Matrix'' empty_world))
              = ClientCall ''search'' (Call [PStr ''The Matrix''] []) # rest)"
proof -
  let ?T = "100 * one_day"
  let ?w = "searched_world (?T - hours_23)"
  have c1: "omdb_client (plain_env one_hit_client no_transport ?T) ''search''
              = Some (Method (\<lambda>c. Inr (PDict [(''Search'', PList [up_movie])])))"
    by (simp add: plain_env_def one_hit_client_def)
  have c2: "omdb_client (debug_env one_hit_client no_transport ?T) ''search''
              = Some (Method (\<lambda>c. Inr (PDict [(''Search'', PList [up_movie])])))"
    by (simp add: debug_env_def plain_env_def one_hit_client_def)
  have rec1: "\<exists>t. search_terms ?w (normalize_term ''The Matrix'') = Some (Some t)
               \<and> now_guard (plain_env one_hit_client no_transport ?T) - one_day < t"
    by (simp add: normalize_the_matrix searched_world_def empty_world_def plain_env_def
          one_day_def hours_23_def)
  have rec2: "\<exists>t. search_terms ?w (normalize_term ''The Matrix'') = Some (Some t)
               \<and> now_guard (debug_env one_hit_client no_transport ?T) - one_day < t"
    by (simp add: normalize_the_matrix searched_world_def empty_world_def plain_env_def
          debug_env_def one_day_def hours_23_def)
  have nov: "\<not> truthy (should_override_cache_guard (plain_env one_hit_client no_transport ?T))"
    by (simp add: should_override_cache_guard_def setting_def plain_env_def py_or_def)
  have ov: "truthy (should_override_cache_guard (debug_env one_hit_client no_transport ?T))"
    by (simp add: should_override_cache_guard_def setting_def plain_env_def debug_env_def py_or_def)
  have nrec: "\<nexists>t. search_terms empty_world (normalize_term ''The Matrix'') = Some (Some t)
               \<and> now_guard (plain_env one_hit_client no_transport ?T) - one_day < t"
    by (simp add: empty_world_def)
  have up: "upstream ?w = []" "movies ?w = Map.empty" "upstream empty_world = []"
    by (simp_all add: searched_world_def empty_world_def)
  from cache_guard_policy[OF c1, of "''The Matrix''" ?w] rec1 nov
  have a: "search_and_save (plain_env one_hit_client no_transport ?T) ''The Matrix'' ?w
             = (Inr (), ?w\<lparr>logged := logged ?w @
                     [(Warning, ''was performed in the past 24 hours so not searching again'')]\<rparr>)"
    by blast
  from cache_guard_policy[OF c2, of "''The Matrix''" ?w] rec2 ov
  have b: "\<exists>rest. upstream (snd (search_and_save (debug_env one_hit_client no_transport ?T)
                    ''The Matrix'' ?w))
              = upstream ?w @ ClientCall ''search'' (Call [PStr ''The Matrix''] []) # rest"
    by blast
  from cache_guard_policy[OF c1, of "''The Matrix''" empty_world] nrec
  have c: "\<exists>rest. upstream (snd (search_and_save (plain_env one_hit_client no_transport ?T)
                    ''The Matrix'' empty_world))
              = upstream empty_world @ ClientCall ''search'' (Call [PStr ''The Matrix''] []) # rest"
    by blast
  from a b c up show ?thesis by simp
qed

section \<open>The cache key and the upstream query\<close>

lemma search_and_save_row:
  assumes "omdb_client e ''search'' = Some (Method f)"
  shows "search_terms (snd (search_and_save e q w)) (normalize_term q) \<noteq> None
         \<and> (\<forall>k. k \<noteq> normalize_term q \<longrightarrow>
               search_terms (snd (search_and_save e q w)) k = search_terms w k)"
proof (cases "search_skipped e q w")
  case True
  from True have "search_terms w (normalize_term q) \<noteq> None"
    by (auto simp: search_skipped_iff)
  with search_and_save_skips[OF True] show ?thesis by simp
next
  case False
  from search_and_save_proceeds[OF assms False] show ?thesis by blast
qed

lemma of_char_lower: 
  "of_char (lower_char c) = (let n = (of_char c :: nat)
                   in if (65 \<le> n \<and> n \<le> 90) \<or> (192 \<le> n \<and> n \<le> 222 \<and> n \<noteq> 215)
                      then n + 32 else n)"
  by (auto simp: lower_char_def Let_def)

lemma is_space_lower [simp]: "is_space (lower_char c) = is_space c"
  by (auto simp: is_space_def of_char_lower Let_def)

lemma lower_char_idem [simp]: "lower_char (lower_char c) = lower_char c"
proof -
  have "(of_char (lower_char (lower_char c)) :: nat) = of_char (lower_char c)"
    by (auto simp: of_char_lower Let_def)
  then show ?thesis by (metis char_of_char)
qed

lemma space_is_space: "is_space (CHR '' '')"
  by (simp add: is_space_def)

lemma collapsed_non_space: "\<not> is_space c \<Longrightarrow> collapsed (c # xs) = collapsed xs"
  by (cases xs) simp_all

lemma collapse_ws_head:
  "t \<noteq> [] \<Longrightarrow> \<not> is_space (hd t) \<Longrightarrow> \<exists>r. collapse_ws t = hd t # r"
  by (cases t) simp_all

lemma collapsed_collapse_ws: "collapsed (collapse_ws s)"
proof (induction s rule: collapse_ws.induct)
  case 1
  show ?case by simp
next
  case (2 c cs)
  show ?case
  proof (cases "is_space c")
    case True
    let ?t = "dropWhile is_space cs"
    from True 2 have ih: "collapsed (collapse_ws ?t)" by simp
    show ?thesis
    proof (cases "?t = []")
      case e: True
      then have z: "collapse_ws ?t = []" by (simp only: collapse_ws.simps)
      have "collapse_ws (c # cs) = [CHR '' '']"
        using True z by (simp only: collapse_ws.simps if_True)
      then show ?thesis by (simp add: space_is_space)
    next
      case False
      then have "\<not> is_space (hd ?t)" by (rule hd_dropWhile)
      with False obtain r where r: "collapse_ws ?t = hd ?t # r"
        using collapse_ws_head by blast
      with ih \<open>\<not> is_space (hd ?t)\<close> True show ?thesis by (simp add: space_is_space)
    qed
  next
    case False
    with 2 have "collapsed (collapse_ws cs)" by simp
    with False show ?thesis by (simp add: collapsed_non_space)
  qed
qed

lemma collapse_ws_fixed: "collapsed s \<Longrightarrow> collapse_ws s = s"
proof (induction s rule: collapse_ws.induct)
  case 1
  show ?case by simp
next
  case (2 c cs)
  show ?case
  proof (cases "is_space c")
    case True
    show ?thesis
    proof (cases cs)
      case Nil
      with True 2 show ?thesis by simp
    next
      case (Cons d ds)
      with True "2.prems" have c: "c = CHR '' ''" and nd: "\<not> is_space d" and cd: "collapsed cs"
        by simp_all
      from nd Cons have dw: "dropWhile is_space cs = cs" by simp
      with True "2.IH"(1) cd have "collapse_ws cs = cs" by simp
      with True c dw show ?thesis by simp
    qed
  next
    case False
    with "2.prems" have "collapsed cs" by (simp add: collapsed_non_space)
    with False "2.IH"(2) show ?thesis by simp
  qed
qed

lemma dropWhile_all: "list_all P xs \<Longrightarrow> dropWhile P (xs @ ys) = dropWhile P ys"
  by (induction xs) simp_all

lemma collapse_ws_run:
  assumes "is_space x" and "is_space y"
  shows "collapse_ws (a @ x # t) = collapse_ws (a @ y # dropWhile is_space t)"
proof (induction a rule: collapse_ws.induct)
  case 1
  from assms show ?case by simp
next
  case (2 c cs)
  show ?case
  proof (cases "is_space c")
    case True
    show ?thesis
    proof (cases "list_all is_space cs")
      case all: True
      from all assms have "dropWhile is_space (cs @ x # t) = dropWhile is_space t"
        by (simp add: dropWhile_all)
      moreover from all assms
      have "dropWhile is_space (cs @ y # dropWhile is_space t) = dropWhile is_space t"
        by (simp add: dropWhile_all)
      ultimately show ?thesis using True by simp
    next
      case False
      then obtain z where "z \<in> set cs" "\<not> is_space z" by (auto simp: list_all_iff)
      then have d1: "dropWhile is_space (cs @ x # t) = dropWhile is_space cs @ x # t"
        and d2: "dropWhile is_space (cs @ y # dropWhile is_space t)
                   = dropWhile is_space cs @ y # dropWhile is_space t"
        by (simp_all add: dropWhile_append1)
      from True "2.IH"(1) have "collapse_ws (dropWhile is_space cs @ x # t)
          = collapse_ws (dropWhile is_space cs @ y # dropWhile is_space t)" by simp
      with True d1 d2 show ?thesis by simp
    qed
  next
    case False
    with "2.IH"(2) show ?thesis by simp
  qed
qed

lemma collapse_ws_runs:
  assumes "ws1 \<noteq> []" "list_all is_space ws1" "ws2 \<noteq> []" "list_all is_space ws2"
  shows "collapse_ws (a @ ws1 @ b) = collapse_ws (a @ ws2 @ b)"
proof -
  obtain x w1 where w1: "ws1 = x # w1" using assms(1) by (cases ws1) auto
  obtain y w2 where w2: "ws2 = y # w2" using assms(3) by (cases ws2) auto
  from assms(2,4) w1 w2 have sp: "is_space x" "is_space y" "list_all is_space w1"
    "list_all is_space w2" by simp_all
  have "collapse_ws (a @ x # (w1 @ b)) = collapse_ws (a @ y # dropWhile is_space (w1 @ b))"
    using sp(1,2) by (rule collapse_ws_run)
  also have "\<dots> = collapse_ws (a @ y # dropWhile is_space b)"
    using sp(3) by (simp add: dropWhile_all)
  also have "\<dots> = collapse_ws (a @ y # dropWhile is_space (w2 @ b))"
    using sp(4) by (simp add: dropWhile_all)
  also have "\<dots> = collapse_ws (a @ y # (w2 @ b))"
    using collapse_ws_run[OF sp(2) sp(2), of a "w2 @ b"] by simp
  finally show ?thesis by (simp add: w1 w2)
qed

lemma normalize_term_case:
  "map lower_char q1 = map lower_char q2 \<Longrightarrow> normalize_term q1 = normalize_term q2"
  by (simp add: normalize_term_def)

lemma normalize_term_runs:
  assumes "ws1 \<noteq> []" "list_all is_space ws1" "ws2 \<noteq> []" "list_all is_space ws2"
  shows "normalize_term (a @ ws1 @ b) = normalize_term (a @ ws2 @ b)"
proof -
  have "map lower_char ws1 \<noteq> []" "list_all is_space (map lower_char ws1)"
    "map lower_char ws2 \<noteq> []" "list_all is_space (map lower_char ws2)"
    using assms by (simp_all add: list_all_iff)
  from collapse_ws_runs[OF this] show ?thesis by (simp add: normalize_term_def)
qed

lemma collapse_ws_lower:
  "list_all (\<lambda>c. lower_char c = c) s \<Longrightarrow> list_all (\<lambda>c. lower_char c = c) (collapse_ws s)"
proof (induction s rule: collapse_ws.induct)
  case 1
  show ?case by simp
next
  case (2 c cs)
  have sp: "lower_char (CHR '' '') = CHR '' ''" by (simp add: lower_char_def)
  show ?case
  proof (cases "is_space c")
    case True
    from "2.prems" have "list_all (\<lambda>c. lower_char c = c) (dropWhile is_space cs)"
      by (auto simp: list_all_iff dest: set_dropWhileD)
    with True "2.IH"(1) sp show ?thesis by simp
  next
    case False
    with "2.IH"(2) "2.prems" show ?thesis by simp
  qed
qed

lemma normalize_term_normal:
  "list_all (\<lambda>c. lower_char c = c) (normalize_term q) \<and> collapsed (normalize_term q)"
proof -
  have "list_all (\<lambda>c. lower_char c = c) (map lower_char q)" by (simp add: list_all_iff)
  from collapse_ws_lower[OF this] show ?thesis
    by (simp add: normalize_term_def collapsed_collapse_ws)
qed

lemma normalize_term_fixed:
  assumes "list_all (\<lambda>c. lower_char c = c) q" and "collapsed q"
  shows "normalize_term q = q"
proof -
  from assms(1) have "map lower_char q = q" by (induction q) simp_all
  with assms(2) show ?thesis by (simp add: normalize_term_def collapse_ws_fixed)
qed

lemma normalize_term_case_runs:
  assumes "map lower_char a = map lower_char a'" "map lower_char b = map lower_char b'"
    "ws1 \<noteq> []" "list_all is_space ws1" "ws2 \<noteq> []" "list_all is_space ws2"
  shows "normalize_term (a @ ws1 @ b) = normalize_term (a' @ ws2 @ b')"
proof -
  have "normalize_term (a @ ws1 @ b) = normalize_term (a' @ ws1 @ b')"
    using assms(1,2) by (intro normalize_term_case) simp
  also have "\<dots> = normalize_term (a' @ ws2 @ b')"
    using assms(3-6) by (rule normalize_term_runs)
  finally show ?thesis .
qed

text \<open>
  C9: the normalized term is the query lowercased with every run of white space
  collapsed to one space: queries that differ only in letter case, or in the white
  space of a run, have the same term; a term has no upper-case letter and no white
  space but single spaces; a query that is already so is its own term.
  \<^verbatim>\<open>search_and_save\<close> keys the SearchTerm row on that term (the row of the term exists
  afterwards and no other row is touched) and passes the original string to the
  client's \<^verbatim>\<open>search\<close>: a skipped call sends nothing, a call that proceeds sends
  \<^verbatim>\<open>search(query)\<close> first.  Two queries with the same term therefore share the row
  and the guard's decision, and different query strings give different requests.
\<close>

theorem cache_key_and_upstream_query:
  assumes "omdb_client e ''search'' = Some (Method f)"
  shows "(map lower_char q1 = map lower_char q2 \<longrightarrow> normalize_term q1 = normalize_term q2)
       \<and> (map lower_char a = map lower_char a' \<and> map lower_char b = map lower_char b'
            \<and> ws1 \<noteq> [] \<and> list_all is_space ws1 \<and> ws2 \<noteq> [] \<and> list_all is_space ws2
          \<longrightarrow> normalize_term (a @ ws1 @ b) = normalize_term (a' @ ws2 @ b'))
       \<and> list_all (\<lambda>c. lower_char c = c) (normalize_term q)
       \<and> collapsed (normalize_term q)
       \<and> (list_all (\<lambda>c. lower_char c = c) q \<and> collapsed q \<longrightarrow> normalize_term q = q)
       \<and> search_terms (snd (search_and_save e q w)) (normalize_term q) \<noteq> None
       \<and> (\<forall>k. k \<noteq> normalize_term q \<longrightarrow>
             search_terms (snd (search_and_save e q w)) k = search_terms w k)
       \<and> (search_skipped e q w \<longrightarrow> upstream (snd (search_and_save e q w)) = upstream w)
       \<and> (\<not> search_skipped e q w \<longrightarrow>
             (\<exists>rest. upstream (snd (search_and_save e q w))
                       = upstream w @ ClientCall ''search'' (Call [PStr q] []) # rest))
       \<and> (normalize_term q1 = normalize_term q2 \<longrightarrow>
             (search_skipped e q1 w \<longleftrightarrow> search_skipped e q2 w)
             \<and> search_terms (snd (search_and_save e q2 w)) (normalize_term q1) \<noteq> None
             \<and> (\<forall>k. k \<noteq> normalize_term q1 \<longrightarrow>
                   search_terms (snd (search_and_save e q2 w)) k = search_terms w k))
       \<and> (q1 \<noteq> q2 \<longrightarrow>
             ClientCall ''search'' (Call [PStr q1] []) \<noteq> ClientCall ''search'' (Call [PStr q2] []))"
proof -
  have k1: "map lower_char q1 = map lower_char q2 \<longrightarrow> normalize_term q1 = normalize_term q2"
    using normalize_term_case[of q1 q2] by (intro impI)
  have k2: "map lower_char a = map lower_char a' \<and> map lower_char b = map lower_char b'
            \<and> ws1 \<noteq> [] \<and> list_all is_space ws1 \<and> ws2 \<noteq> [] \<and> list_all is_space ws2
          \<longrightarrow> normalize_term (a @ ws1 @ b) = normalize_term (a' @ ws2 @ b')"
    using normalize_term_case_runs[of a a' b b' ws1 ws2] by (intro impI) (elim conjE)
  have k3: "list_all (\<lambda>c. lower_char c = c) (normalize_term q)"
    and k4: "collapsed (normalize_term q)"
    using normalize_term_normal[of q] by simp_all
  have k5: "list_all (\<lambda>c. lower_char c = c) q \<and> collapsed q \<longrightarrow> normalize_term q = q"
    using normalize_term_fixed[of q] by (intro impI) (elim conjE)
  have k6: "search_terms (snd (search_and_save e q w)) (normalize_term q) \<noteq> None"
    and k7: "\<forall>k. k \<noteq> normalize_term q \<longrightarrow>
             search_terms (snd (search_and_save e q w)) k = search_terms w k"
    using search_and_save_row[OF assms, of q w] by simp_all
  have k8: "search_skipped e q w \<longrightarrow> upstream (snd (search_and_save e q w)) = upstream w"
    using search_and_save_skips[of e q w] by auto
  have k9: "\<not> search_skipped e q w \<longrightarrow>
             (\<exists>rest. upstream (snd (search_and_save e q w))
                       = upstream w @ ClientCall ''search'' (Call [PStr q] []) # rest)"
    using search_and_save_proceeds[OF assms, of q w] by blast
  have k10: "normalize_term q1 = normalize_term q2 \<longrightarrow>
             (search_skipped e q1 w \<longleftrightarrow> search_skipped e q2 w)
             \<and> search_terms (snd (search_and_save e q2 w)) (normalize_term q1) \<noteq> None
             \<and> (\<forall>k. k \<noteq> normalize_term q1 \<longrightarrow>
                   search_terms (snd (search_and_save e q2 w)) k = search_terms w k)"
  proof
    assume eq: "normalize_term q1 = normalize_term q2"
    then have "search_skipped e q1 w \<longleftrightarrow> search_skipped e q2 w"
      by (simp add: search_skipped_def)
    with search_and_save_row[OF assms, of q2 w] eq
    show "(search_skipped e q1 w \<longleftrightarrow> search_skipped e q2 w)
             \<and> search_terms (snd (search_and_save e q2 w)) (normalize_term q1) \<noteq> None
             \<and> (\<forall>k. k \<noteq> normalize_term q1 \<longrightarrow>
                   search_terms (snd (search_and_save e q2 w)) k = search_terms w k)"
      by simp
  qed
  have k11: "q1 \<noteq> q2 \<longrightarrow>
             ClientCall ''search'' (Call [PStr q1] []) \<noteq> ClientCall ''search'' (Call [PStr q2] [])"
    by simp
  show ?thesis
    by (intro conjI) (rule k1 k2 k3 k4 k5 k6 k7 k8 k9 k10 k11)+
qed

theorem cache_key_and_upstream_query_witness:
  "normalize_term ''The   Matrix'' = ''the matrix''
   \<and> normalize_term ''the matrix'' = ''the matrix''
   \<and> search_terms (snd (search_and_save (plain_env one_hit_client no_transport 5)
                          ''The   Matrix'' empty_world)) ''the matrix'' \<noteq> None
   \<and> search_terms (snd (search_and_save (plain_env one_hit_client no_transport 5)
                          ''the matrix'' empty_world)) ''the matrix'' \<noteq> None
   \<and> (\<exists>rest. upstream (snd (search_and_save (plain_env one_hit_client no_transport 5)
                              ''The   Matrix'' empty_world))
              = ClientCall ''search'' (Call [PStr ''The   Matrix''] []) # rest)
   \<and> (\<exists>rest. upstream (snd (search_and_save (plain_env one_hit_client no_transport 5)
                              ''the matrix'' empty_world))
              = ClientCall ''search'' (Call [PStr ''the matrix''] []) # rest)
   \<and> upstream (snd (search_and_save (plain_env one_hit_client no_transport (100 * one_day))
                       ''The   Matrix'' (searched_world (100 * one_day - hours_23)))) = []
   \<and> upstream (snd (search_and_save (plain_env one_hit_client no_transport (100 * one_day))
                       ''the matrix'' (searched_world (100 * one_day - hours_23)))) = []"
proof -
  let ?e = "plain_env one_hit_client no_transport 5"
  let ?e' = "plain_env one_hit_client no_transport (100 * one_day)"
  let ?w' = "searched_world (100 * one_day - hours_23)"
  let ?Q = "''The   Matrix''"
  let ?q = "''the matrix''"
  have c1: "omdb_client ?e ''search''
              = Some (Method (\<lambda>c. Inr (PDict [(''Search'', PList [up_movie])])))"
    by (simp add: plain_env_def one_hit_client_def)
  have c2: "omdb_client ?e' ''search''
              = Some (Method (\<lambda>c. Inr (PDict [(''Search'', PList [up_movie])])))"
    by (simp add: plain_env_def one_hit_client_def)
  have lo: "map lower_char ''The'' = map lower_char ''the''"
    "map lower_char ''Matrix'' = map lower_char ''matrix''"
    by code_simp+
  have sp: "''   '' \<noteq> []" "list_all is_space ''   ''" "'' '' \<noteq> []" "list_all is_space '' ''"
    by (simp_all add: is_space_def)
  have normal: "list_all (\<lambda>c. lower_char c = c) ?q" "collapsed ?q"
    by (simp_all add: lower_char_def is_space_def)
  note tQ = cache_key_and_upstream_query[OF c1, of ?Q ?q "''The''" "''the''" "''Matrix''"
      "''matrix''" "''   ''" "'' ''" ?q empty_world]
  note tq = cache_key_and_upstream_query[OF c1, of ?q ?Q "''The''" "''the''" "''Matrix''"
      "''matrix''" "''   ''" "'' ''" ?Q empty_world]
  note sQ = cache_key_and_upstream_query[OF c2, of ?Q ?q "''The''" "''the''" "''Matrix''"
      "''matrix''" "''   ''" "'' ''" ?Q ?w']
  note sq = cache_key_and_upstream_query[OF c2, of ?Q ?q "''The''" "''the''" "''Matrix''"
      "''matrix''" "''   ''" "'' ''" ?q ?w']
  have fx: "normalize_term ?q = ?q"
    using tQ[THEN conjunct2, THEN conjunct2, THEN conjunct2, THEN conjunct2, THEN conjunct1]
      normal by blast
  have "normalize_term (''The'' @ ''   '' @ ''Matrix'') = normalize_term (''the'' @ '' '' @ ''matrix'')"
    using tQ[THEN conjunct2, THEN conjunct1] lo sp by blast
  then have eq: "normalize_term ?Q = ?q" using fx by simp
  have up: "upstream empty_world = []" "upstream ?w' = []"
    "search_terms empty_world = Map.empty"
    by (simp_all add: empty_world_def searched_world_def)
  have nsQ: "\<not> search_skipped ?e ?Q empty_world" "\<not> search_skipped ?e ?q empty_world"
    by (simp_all add: search_skipped_iff up)
  have skQ: "search_skipped ?e' ?Q ?w'"
    by (simp add: search_skipped_iff eq searched_world_def empty_world_def
          plain_env_def one_day_def hours_23_def should_override_cache_guard_def setting_def
          py_or_def)
  then have skq: "search_skipped ?e' ?q ?w'"
    using sQ[THEN conjunct2, THEN conjunct2, THEN conjunct2, THEN conjunct2, THEN conjunct2,
             THEN conjunct2, THEN conjunct2, THEN conjunct2, THEN conjunct2, THEN conjunct1]
      eq fx by simp
  note rest5 = conjunct2[OF conjunct2[OF conjunct2[OF conjunct2[OF conjunct2]]]]
  have rowQ: "search_terms (snd (search_and_save ?e ?Q empty_world)) ?q \<noteq> None"
    using tq[THEN rest5, THEN conjunct1] eq by simp
  have rowq: "search_terms (snd (search_and_save ?e ?q empty_world)) ?q \<noteq> None"
    using tQ[THEN rest5, THEN conjunct1] fx by simp
  have reqQ: "\<exists>rest. upstream (snd (search_and_save ?e ?Q empty_world))
              = ClientCall ''search'' (Call [PStr ?Q] []) # rest"
    using tq[THEN rest5, THEN conjunct2, THEN conjunct2, THEN conjunct2, THEN conjunct1] nsQ(1) up
    by simp
  have reqq: "\<exists>rest. upstream (snd (search_and_save ?e ?q empty_world))
              = ClientCall ''search'' (Call [PStr ?q] []) # rest"
    using tQ[THEN rest5, THEN conjunct2, THEN conjunct2, THEN conjunct2, THEN conjunct1] nsQ(2) up
    by simp
  have skipQ: "upstream (snd (search_and_save ?e' ?Q ?w')) = []"
    using sQ[THEN rest5, THEN conjunct2, THEN conjunct2, THEN conjunct1] skQ up by simp
  have skipq: "upstream (snd (search_and_save ?e' ?q ?w')) = []"
    using sq[THEN rest5, THEN conjunct2, THEN conjunct2, THEN conjunct1] skq up by simp
  from eq fx rowQ rowq reqQ reqq skipQ skipq show ?thesis by simp
qed

section \<open>The string variant of the Search-Item Normalizer\<close>



lemma title_calls_append:
  "title_calls c item (xs @ ys) = title_calls c item xs @ title_calls c item ys"
  by (simp add: title_calls_def)








section \<open>fill_movie_details on a full record\<close>

text \<open>
  C7: for a movie whose \<^verbatim>\<open>is_full_record\<close> is set, \<^verbatim>\<open>fill_movie_details\<close> returns
  with the movie instance unchanged and the world unchanged but for one warning line:
  no Movie row, genre association or Genre row is changed and nothing is sent
  upstream.
\<close>

theorem fill_full_record_noop:
  assumes "m_is_full_record movie"
  shows "fill_movie_details e movie w
           = (Inr (), movie, w\<lparr>logged := logged w @ [(Warning, ''is already a full record'')]\<rparr>)
         \<and> movies (snd (snd (fill_movie_details e movie w))) = movies w
         \<and> movie_genres (snd (snd (fill_movie_details e movie w))) = movie_genres w
         \<and> genre_rows (snd (snd (fill_movie_details e movie w))) = genre_rows w
         \<and> upstream (snd (snd (fill_movie_details e movie w))) = upstream w"
  using assms by (simp add: fill_movie_details_def log_line_def)

theorem fill_full_record_noop_witness:
  "fst (fill_movie_details (plain_env keyword_only_client no_transport 0)
          ((new_movie (PStr ''tt1049413'') (PStr ''Up'') (PInt 2009))\<lparr>m_is_full_record := True\<rparr>)
          empty_world) = Inr ()
   \<and> fst (snd (fill_movie_details (plain_env keyword_only_client no_transport 0)
          ((new_movie (PStr ''tt1049413'') (PStr ''Up'') (PInt 2009))\<lparr>m_is_full_record := True\<rparr>)
          empty_world))
       = (new_movie (PStr ''tt1049413'') (PStr ''Up'') (PInt 2009))\<lparr>m_is_full_record := True\<rparr>
   \<and> upstream (snd (snd (fill_movie_details (plain_env keyword_only_client no_transport 0)
          ((new_movie (PStr ''tt1049413'') (PStr ''Up'') (PInt 2009))\<lparr>m_is_full_record := True\<rparr>)
          empty_world))) = []"
proof -
  have full: "m_is_full_record
      ((new_movie (PStr ''tt1049413'') (PStr ''Up'') (PInt 2009))\<lparr>m_is_full_record := True\<rparr>)"
    by simp
  from fill_full_record_noop[OF full, of "plain_env keyword_only_client no_transport 0" empty_world]
  show ?thesis by (simp add: empty_world_def)
qed

section \<open>Exceptions that leave the resolver and the search\<close>

text \<open>
  C1: \<^verbatim>\<open>_fetch_by_imdb_id\<close> is to return a payload or null and never raise.  With a
  client whose \<^verbatim>\<open>get_by_imdb_id\<close> takes the identifier as keyword \<^verbatim>\<open>imdbid\<close> only and
  fails upstream, the positional call raises \<^verbatim>\<open>TypeError\<close>, the \<^verbatim>\<open>imdbid=\<close> call raises
  \<^verbatim>\<open>HTTPError\<close> inside the handler of the first \<^verbatim>\<open>try\<close>, and that exception leaves the
  function.
\<close>

theorem fetch_by_imdb_id_raises:
  "fst (fetch_by_imdb_id (plain_env keyword_only_client no_transport 0) keyword_only_client
          (PStr ''tt1853728'') empty_world) = Inl HTTPError
   \<and> keyword_only_getter (Call [PStr ''tt1853728''] []) = Inl TypeError
   \<and> keyword_only_getter (Call [] [(''imdbid'', PStr ''tt1853728'')]) = Inl HTTPError"
  by code_simp

text \<open>
  C2: no exception is to reach the caller of \<^verbatim>\<open>search_and_save\<close>.  With the client
  of \<^verbatim>\<open>omdb/client.py\<close>, a search that OMDb answers with \<^verbatim>\<open>Response: "False"\<close> raises
  \<^verbatim>\<open>ValueError\<close> and a search answered with status 500 raises \<^verbatim>\<open>HTTPError\<close>; the call
  of line 260 is outside any \<^verbatim>\<open>try\<close>, so either one leaves \<^verbatim>\<open>search_and_save\<close>.
\<close>

theorem search_and_save_raises:
  "fst (search_and_save (plain_env (OmdbClient (PStr ''key'') not_found_transport) no_transport 0)
          ''zzzz'' empty_world) = Inl ValueError
   \<and> fst (search_and_save (plain_env (OmdbClient (PStr ''key'') server_error_transport) no_transport 0)
          ''zzzz'' empty_world) = Inl HTTPError"
  by code_simp

end
